theory Spec2Isabelle
  imports Main "HOL-Library.Word" "HOL-Library.Sublist"
begin

section \<open>The ActivityPub vocabulary: actors and collections\<close>

text \<open>
  A shallow embedding of \<^verbatim>\<open>actor.go\<close> and \<^verbatim>\<open>collection.go\<close>. Go structs are
  single-constructor datatypes whose selectors carry the Go field names
  (\<open>Actor.ID\<close>, \<open>Collection.Items\<close>); the interface \<^verbatim>\<open>Item\<close> is the datatype of the
  dynamic types a value of that interface holds in the two files. Functions that mutate
  their receiver return the updated receiver. A call of a method on the nil interface is a
  run-time panic and is a value of the model (\<open>Inl nil_dereference\<close>); a Go \<^verbatim>\<open>error\<close>
  result is \<open>error option\<close> or the left summand of \<open>error + 'a\<close>.

  Functions and declarations that the two files use but do not contain (the JSON getters
  and writers, \<^verbatim>\<open>IRI.Equals\<close>, the scanner \<^verbatim>\<open>jsonparser.GetString\<close>) are parameters of
  the functions that call them.
\<close>

subsection \<open>Basic types\<close>

type_synonym bytes = string
type_synonym ID = string
type_synonym IRI = string
type_synonym ActivityVocabularyType = string
type_synonym ActivityVocabularyTypes = "ActivityVocabularyType list"
type_synonym MimeType = string

text \<open>\<^verbatim>\<open>uint\<close> and \<^verbatim>\<open>time.Duration\<close> (an \<^verbatim>\<open>int64\<close>) on a 64-bit platform.\<close>

type_synonym uint = "64 word"
type_synonym Duration = "64 word"

text \<open>\<^verbatim>\<open>time.Time\<close> is only stored and copied by the two files: an instant is an integer,
  the zero time is \<open>0\<close>.\<close>

type_synonym Time = int

text \<open>Modelled from the spec: \<^verbatim>\<open>NaturalLanguageValues\<close> (its declaration is not among the
  sources) is a mapping from language tag to text, kept as an association list; \<open>None\<close> is
  Go's nil value of the type.\<close>

type_synonym NaturalLanguageValues = "(string \<times> string) list option"

datatype error = errors_New string

datatype panic = nil_dereference

text \<open>\<^verbatim>\<open>Source\<close> is only stored by the two files; its declaration is not among the sources.\<close>

datatype Source = Source (Content: NaturalLanguageValues) (MediaType: MimeType)

subsection \<open>Items and the structs\<close>

text \<open>
  A slice that the sources compare with \<^verbatim>\<open>nil\<close> (\<^verbatim>\<open>ItemCollection\<close>) is an optional list,
  \<open>None\<close> being the nil slice. \<open>ActorPtr\<close> and \<open>ActorVal\<close> are the dynamic types
  \<^verbatim>\<open>*Actor\<close> and \<^verbatim>\<open>Actor\<close>; a pointer variant carries the value it points to, so a nil
  pointer wrapped in the interface is not a value of the model. \<open>ItemNil\<close> is the nil
  interface.
\<close>

text \<open>
  Modelled from the spec: the declarations of \<^verbatim>\<open>Object\<close>, \<^verbatim>\<open>CollectionPage\<close> and
  \<^verbatim>\<open>OrderedCollection\<close> are not among the sources. \<open>Object\<close> is the base entity shape,
  the fields that \<open>Actor\<close> and \<open>Collection\<close> both start with; a \<open>CollectionPage\<close> starts
  with the fields of a \<open>Collection\<close> and its page-only references follow; an ordered
  collection has the shape of a \<open>Collection\<close>. \<open>OtherItem\<close> stands for the remaining
  implementations of the interface (links, activities), known by type and identifier.
\<close>

datatype Item =
    ItemNil
  | IRIItem IRI
  | ActorPtr Actor
  | ActorVal Actor
  | ObjectPtr Object
  | ObjectVal Object
  | CollectionPtr Collection
  | CollectionVal Collection
  | CollectionPagePtr CollectionPage
  | CollectionPageVal CollectionPage
  | OrderedCollectionPtr Collection
  | ItemCollectionVal "Item list option"
  | OtherItem ActivityVocabularyType ID
and PublicKey = PublicKey
    (ID: ID)
    (Owner: Item)
    (PublicKeyPem: string)
and Endpoints = Endpoints
    (UploadMedia: Item)
    (OauthAuthorizationEndpoint: Item)
    (OauthTokenEndpoint: Item)
    (ProvideClientKey: Item)
    (SignClientKey: Item)
    (SharedInbox: Item)
and Actor = Actor
    (ID: ID)
    (Type: ActivityVocabularyType)
    (Name: NaturalLanguageValues)
    (Attachment: Item)
    (AttributedTo: Item)
    (Audience: "Item list option")
    (Content: NaturalLanguageValues)
    (Context: Item)
    (MediaType: MimeType)
    (EndTime: Time)
    (Generator: Item)
    (Icon: Item)
    (Image: Item)
    (InReplyTo: Item)
    (Location: Item)
    (Preview: Item)
    (Published: Time)
    (Replies: Item)
    (StartTime: Time)
    (Summary: NaturalLanguageValues)
    (Tag: "Item list option")
    (Updated: Time)
    (URL: Item)
    (To: "Item list option")
    (Bto: "Item list option")
    (CC: "Item list option")
    (BCC: "Item list option")
    (Duration: Duration)
    (Likes: Item)
    (Shares: Item)
    (Source: Source)
    (Inbox: Item)
    (Outbox: Item)
    (Following: Item)
    (Followers: Item)
    (Liked: Item)
    (PreferredUsername: NaturalLanguageValues)
    (Endpoints: "Endpoints option")
    (Streams: "Item list option list")
    (PublicKey: PublicKey)
and Object = Object
    (ID: ID)
    (Type: ActivityVocabularyType)
    (Name: NaturalLanguageValues)
    (Attachment: Item)
    (AttributedTo: Item)
    (Audience: "Item list option")
    (Content: NaturalLanguageValues)
    (Context: Item)
    (MediaType: MimeType)
    (EndTime: Time)
    (Generator: Item)
    (Icon: Item)
    (Image: Item)
    (InReplyTo: Item)
    (Location: Item)
    (Preview: Item)
    (Published: Time)
    (Replies: Item)
    (StartTime: Time)
    (Summary: NaturalLanguageValues)
    (Tag: "Item list option")
    (Updated: Time)
    (URL: Item)
    (To: "Item list option")
    (Bto: "Item list option")
    (CC: "Item list option")
    (BCC: "Item list option")
    (Duration: Duration)
    (Likes: Item)
    (Shares: Item)
    (Source: Source)
and Collection = Collection
    (ID: ID)
    (Type: ActivityVocabularyType)
    (Name: NaturalLanguageValues)
    (Attachment: Item)
    (AttributedTo: Item)
    (Audience: "Item list option")
    (Content: NaturalLanguageValues)
    (Context: Item)
    (MediaType: MimeType)
    (EndTime: Time)
    (Generator: Item)
    (Icon: Item)
    (Image: Item)
    (InReplyTo: Item)
    (Location: Item)
    (Preview: Item)
    (Published: Time)
    (Replies: Item)
    (StartTime: Time)
    (Summary: NaturalLanguageValues)
    (Tag: "Item list option")
    (Updated: Time)
    (URL: Item)
    (To: "Item list option")
    (Bto: "Item list option")
    (CC: "Item list option")
    (BCC: "Item list option")
    (Duration: Duration)
    (Likes: Item)
    (Shares: Item)
    (Source: Source)
    (Current: Item)
    (First: Item)
    (Last: Item)
    (TotalItems: uint)
    (Items: "Item list option")
and CollectionPage = CollectionPage
    (Collection_fields: Collection)
    (page_only: "Item list")

type_synonym ItemCollection = "Item list option"
type_synonym OrderedCollection = Collection

text \<open>\<^verbatim>\<open>len(s)\<close> of a slice, and the elements a \<^verbatim>\<open>range\<close> loop visits.\<close>

definition len :: "'a list option \<Rightarrow> nat" where
  "len s = (case s of None \<Rightarrow> 0 | Some xs \<Rightarrow> length xs)"

definition elems :: "'a list option \<Rightarrow> 'a list" where
  "elems s = (case s of None \<Rightarrow> [] | Some xs \<Rightarrow> xs)"

subsection \<open>actor.go\<close>

definition ApplicationType :: ActivityVocabularyType where "ApplicationType = ''Application''"
definition GroupType :: ActivityVocabularyType where "GroupType = ''Group''"
definition OrganizationType :: ActivityVocabularyType where "OrganizationType = ''Organization''"
definition PersonType :: ActivityVocabularyType where "PersonType = ''Person''"
definition ServiceType :: ActivityVocabularyType where "ServiceType = ''Service''"

definition ActorTypes :: ActivityVocabularyTypes where
  "ActorTypes = [ApplicationType, GroupType, OrganizationType, PersonType, ServiceType]"

text \<open>Modelled from the spec: the discriminator constants \<^verbatim>\<open>ActorType\<close>, \<^verbatim>\<open>CollectionType\<close>,
  \<^verbatim>\<open>OrderedCollectionType\<close>, \<^verbatim>\<open>CollectionPageType\<close> and \<^verbatim>\<open>OrderedCollectionPageType\<close>
  are not among the sources; the spec names the tags "Collection" and "OrderedCollection"
  and the generic "Actor" default.\<close>

definition ActorType :: ActivityVocabularyType where "ActorType = ''Actor''"
definition CollectionType :: ActivityVocabularyType where "CollectionType = ''Collection''"
definition OrderedCollectionType :: ActivityVocabularyType where
  "OrderedCollectionType = ''OrderedCollection''"
definition CollectionPageType :: ActivityVocabularyType where
  "CollectionPageType = ''CollectionPage''"
definition OrderedCollectionPageType :: ActivityVocabularyType where
  "OrderedCollectionPageType = ''OrderedCollectionPage''"

text \<open>Modelled from the spec: \<^verbatim>\<open>ActivityVocabularyTypes.Contains\<close> is not among the
  sources; it tells whether a discriminator is one of the listed ones.\<close>

definition ActivityVocabularyTypes_Contains ::
  "ActivityVocabularyTypes \<Rightarrow> ActivityVocabularyType \<Rightarrow> bool" where
  "ActivityVocabularyTypes_Contains ts typ = (typ \<in> set ts)"

text \<open>Modelled from the spec: \<^verbatim>\<open>NaturalLanguageValuesNew\<close> is not among the sources; a
  typed constructor assigns an empty natural-language container.\<close>

definition NaturalLanguageValuesNew :: NaturalLanguageValues where
  "NaturalLanguageValuesNew = Some []"

definition Actor_GetID :: "Actor \<Rightarrow> ID" where "Actor_GetID a = Actor.ID a"
definition Actor_GetLink :: "Actor \<Rightarrow> IRI" where "Actor_GetLink a = Actor.ID a"
definition Actor_GetType :: "Actor \<Rightarrow> ActivityVocabularyType" where
  "Actor_GetType a = Actor.Type a"
definition Actor_IsLink :: "Actor \<Rightarrow> bool" where "Actor_IsLink a = False"
definition Actor_IsObject :: "Actor \<Rightarrow> bool" where "Actor_IsObject a = True"
definition Actor_IsCollection :: "Actor \<Rightarrow> bool" where "Actor_IsCollection a = False"

text \<open>\<^verbatim>\<open>PublicKey.UnmarshalJSON\<close>. The scanner \<^verbatim>\<open>jsonparser.GetString\<close> is the parameter
  \<open>GetString\<close>; the receiver is returned as the calls left it.\<close>

definition PublicKey_UnmarshalJSON ::
  "(bytes \<Rightarrow> string \<Rightarrow> error + string) \<Rightarrow> PublicKey \<Rightarrow> bytes \<Rightarrow> PublicKey \<times> error option" where
  "PublicKey_UnmarshalJSON GetString p data =
     (case GetString data ''id'' of
        Inl err \<Rightarrow> (p, Some err)
      | Inr id' \<Rightarrow>
         (let p = PublicKey.PublicKey id' (PublicKey.Owner p) (PublicKey.PublicKeyPem p) in
          case GetString data ''owner'' of
            Inl err \<Rightarrow> (p, Some err)
          | Inr ow \<Rightarrow>
             (let p = PublicKey.PublicKey (PublicKey.ID p) (IRIItem ow) (PublicKey.PublicKeyPem p) in
              case GetString data ''publicKeyPem'' of
                Inl err \<Rightarrow> (p, Some err)
              | Inr pub \<Rightarrow> (PublicKey.PublicKey (PublicKey.ID p) (PublicKey.Owner p) pub, None))))"

text \<open>\<^verbatim>\<open>OrderedCollectionNew\<close> (collection.go): the composite literal sets \<open>ID\<close> and
  \<open>Type\<close>, the two assignments \<open>Name\<close> and \<open>Content\<close>; every other field has its zero
  value.\<close>

definition OrderedCollectionNew :: "ID \<Rightarrow> OrderedCollection" where
  "OrderedCollectionNew id' =
     Collection
     (id')  \<comment> \<open>ID\<close>
     (OrderedCollectionType)  \<comment> \<open>Type\<close>
     (NaturalLanguageValuesNew)  \<comment> \<open>Name\<close>
     (ItemNil)  \<comment> \<open>Attachment\<close>
     (ItemNil)  \<comment> \<open>AttributedTo\<close>
     (None)  \<comment> \<open>Audience\<close>
     (NaturalLanguageValuesNew)  \<comment> \<open>Content\<close>
     (ItemNil)  \<comment> \<open>Context\<close>
     ([])  \<comment> \<open>MediaType\<close>
     (0)  \<comment> \<open>EndTime\<close>
     (ItemNil)  \<comment> \<open>Generator\<close>
     (ItemNil)  \<comment> \<open>Icon\<close>
     (ItemNil)  \<comment> \<open>Image\<close>
     (ItemNil)  \<comment> \<open>InReplyTo\<close>
     (ItemNil)  \<comment> \<open>Location\<close>
     (ItemNil)  \<comment> \<open>Preview\<close>
     (0)  \<comment> \<open>Published\<close>
     (ItemNil)  \<comment> \<open>Replies\<close>
     (0)  \<comment> \<open>StartTime\<close>
     (None)  \<comment> \<open>Summary\<close>
     (None)  \<comment> \<open>Tag\<close>
     (0)  \<comment> \<open>Updated\<close>
     (ItemNil)  \<comment> \<open>URL\<close>
     (None)  \<comment> \<open>To\<close>
     (None)  \<comment> \<open>Bto\<close>
     (None)  \<comment> \<open>CC\<close>
     (None)  \<comment> \<open>BCC\<close>
     (0)  \<comment> \<open>Duration\<close>
     (ItemNil)  \<comment> \<open>Likes\<close>
     (ItemNil)  \<comment> \<open>Shares\<close>
     ((Source.Source None []))  \<comment> \<open>Source\<close>
     (ItemNil)  \<comment> \<open>Current\<close>
     (ItemNil)  \<comment> \<open>First\<close>
     (ItemNil)  \<comment> \<open>Last\<close>
     (0)  \<comment> \<open>TotalItems\<close>
     (None)  \<comment> \<open>Items\<close>"

definition ActorNew :: "ID \<Rightarrow> ActivityVocabularyType \<Rightarrow> Actor" where
  "ActorNew id' typ0 =
     (let typ = (if \<not> ActivityVocabularyTypes_Contains ActorTypes typ0 then ActorType else typ0);
          in' = OrderedCollectionNew ''test-inbox'';
          out = OrderedCollectionNew ''test-outbox'';
          liked = OrderedCollectionNew ''test-liked''
      in Actor
        (id')  \<comment> \<open>ID\<close>
        (typ)  \<comment> \<open>Type\<close>
        (NaturalLanguageValuesNew)  \<comment> \<open>Name\<close>
        (ItemNil)  \<comment> \<open>Attachment\<close>
        (ItemNil)  \<comment> \<open>AttributedTo\<close>
        (None)  \<comment> \<open>Audience\<close>
        (NaturalLanguageValuesNew)  \<comment> \<open>Content\<close>
        (ItemNil)  \<comment> \<open>Context\<close>
        ([])  \<comment> \<open>MediaType\<close>
        (0)  \<comment> \<open>EndTime\<close>
        (ItemNil)  \<comment> \<open>Generator\<close>
        (ItemNil)  \<comment> \<open>Icon\<close>
        (ItemNil)  \<comment> \<open>Image\<close>
        (ItemNil)  \<comment> \<open>InReplyTo\<close>
        (ItemNil)  \<comment> \<open>Location\<close>
        (ItemNil)  \<comment> \<open>Preview\<close>
        (0)  \<comment> \<open>Published\<close>
        (ItemNil)  \<comment> \<open>Replies\<close>
        (0)  \<comment> \<open>StartTime\<close>
        (NaturalLanguageValuesNew)  \<comment> \<open>Summary\<close>
        (None)  \<comment> \<open>Tag\<close>
        (0)  \<comment> \<open>Updated\<close>
        (ItemNil)  \<comment> \<open>URL\<close>
        (None)  \<comment> \<open>To\<close>
        (None)  \<comment> \<open>Bto\<close>
        (None)  \<comment> \<open>CC\<close>
        (None)  \<comment> \<open>BCC\<close>
        (0)  \<comment> \<open>Duration\<close>
        (ItemNil)  \<comment> \<open>Likes\<close>
        (ItemNil)  \<comment> \<open>Shares\<close>
        ((Source.Source None []))  \<comment> \<open>Source\<close>
        (OrderedCollectionPtr in')  \<comment> \<open>Inbox\<close>
        (OrderedCollectionPtr out)  \<comment> \<open>Outbox\<close>
        (ItemNil)  \<comment> \<open>Following\<close>
        (ItemNil)  \<comment> \<open>Followers\<close>
        (OrderedCollectionPtr liked)  \<comment> \<open>Liked\<close>
        (NaturalLanguageValuesNew)  \<comment> \<open>PreferredUsername\<close>
        (None)  \<comment> \<open>Endpoints\<close>
        ([])  \<comment> \<open>Streams\<close>
        ((PublicKey.PublicKey [] ItemNil []))  \<comment> \<open>PublicKey\<close>)"

definition ApplicationNew :: "ID \<Rightarrow> Actor" where "ApplicationNew id' = ActorNew id' ApplicationType"
definition GroupNew :: "ID \<Rightarrow> Actor" where "GroupNew id' = ActorNew id' GroupType"
definition OrganizationNew :: "ID \<Rightarrow> Actor" where
  "OrganizationNew id' = ActorNew id' OrganizationType"
definition PersonNew :: "ID \<Rightarrow> Actor" where "PersonNew id' = ActorNew id' PersonType"
definition ServiceNew :: "ID \<Rightarrow> Actor" where "ServiceNew id' = ActorNew id' ServiceType"

text \<open>\<^verbatim>\<open>Clean\<close> assigns nil to \<open>BCC\<close> and \<open>Bto\<close>; the receiver is returned.\<close>

definition Clean :: "Actor \<Rightarrow> Actor" where
  "Clean a =
     Actor
     (Actor.ID a)  \<comment> \<open>ID\<close>
     (Actor.Type a)  \<comment> \<open>Type\<close>
     (Actor.Name a)  \<comment> \<open>Name\<close>
     (Actor.Attachment a)  \<comment> \<open>Attachment\<close>
     (Actor.AttributedTo a)  \<comment> \<open>AttributedTo\<close>
     (Actor.Audience a)  \<comment> \<open>Audience\<close>
     (Actor.Content a)  \<comment> \<open>Content\<close>
     (Actor.Context a)  \<comment> \<open>Context\<close>
     (Actor.MediaType a)  \<comment> \<open>MediaType\<close>
     (Actor.EndTime a)  \<comment> \<open>EndTime\<close>
     (Actor.Generator a)  \<comment> \<open>Generator\<close>
     (Actor.Icon a)  \<comment> \<open>Icon\<close>
     (Actor.Image a)  \<comment> \<open>Image\<close>
     (Actor.InReplyTo a)  \<comment> \<open>InReplyTo\<close>
     (Actor.Location a)  \<comment> \<open>Location\<close>
     (Actor.Preview a)  \<comment> \<open>Preview\<close>
     (Actor.Published a)  \<comment> \<open>Published\<close>
     (Actor.Replies a)  \<comment> \<open>Replies\<close>
     (Actor.StartTime a)  \<comment> \<open>StartTime\<close>
     (Actor.Summary a)  \<comment> \<open>Summary\<close>
     (Actor.Tag a)  \<comment> \<open>Tag\<close>
     (Actor.Updated a)  \<comment> \<open>Updated\<close>
     (Actor.URL a)  \<comment> \<open>URL\<close>
     (Actor.To a)  \<comment> \<open>To\<close>
     (None)  \<comment> \<open>Bto\<close>
     (Actor.CC a)  \<comment> \<open>CC\<close>
     (None)  \<comment> \<open>BCC\<close>
     (Actor.Duration a)  \<comment> \<open>Duration\<close>
     (Actor.Likes a)  \<comment> \<open>Likes\<close>
     (Actor.Shares a)  \<comment> \<open>Shares\<close>
     (Actor.Source a)  \<comment> \<open>Source\<close>
     (Actor.Inbox a)  \<comment> \<open>Inbox\<close>
     (Actor.Outbox a)  \<comment> \<open>Outbox\<close>
     (Actor.Following a)  \<comment> \<open>Following\<close>
     (Actor.Followers a)  \<comment> \<open>Followers\<close>
     (Actor.Liked a)  \<comment> \<open>Liked\<close>
     (Actor.PreferredUsername a)  \<comment> \<open>PreferredUsername\<close>
     (Actor.Endpoints a)  \<comment> \<open>Endpoints\<close>
     (Actor.Streams a)  \<comment> \<open>Streams\<close>
     (Actor.PublicKey a)  \<comment> \<open>PublicKey\<close>"

text \<open>
  \<^verbatim>\<open>ToActor\<close>. The cases \<^verbatim>\<open>*Object\<close> and \<^verbatim>\<open>Object\<close> reinterpret the object's memory as
  an \<open>Actor\<close> through \<^verbatim>\<open>unsafe.Pointer\<close>: the fields the two structs start with read the
  object's fields, and the actor-only fields read the memory that lies behind the object,
  which is the parameter \<open>m\<close> (its actor-only fields).
\<close>

definition Actor_of_Object :: "Actor \<Rightarrow> Object \<Rightarrow> Actor" where
  "Actor_of_Object m i =
     Actor
     (Object.ID i)  \<comment> \<open>ID\<close>
     (Object.Type i)  \<comment> \<open>Type\<close>
     (Object.Name i)  \<comment> \<open>Name\<close>
     (Object.Attachment i)  \<comment> \<open>Attachment\<close>
     (Object.AttributedTo i)  \<comment> \<open>AttributedTo\<close>
     (Object.Audience i)  \<comment> \<open>Audience\<close>
     (Object.Content i)  \<comment> \<open>Content\<close>
     (Object.Context i)  \<comment> \<open>Context\<close>
     (Object.MediaType i)  \<comment> \<open>MediaType\<close>
     (Object.EndTime i)  \<comment> \<open>EndTime\<close>
     (Object.Generator i)  \<comment> \<open>Generator\<close>
     (Object.Icon i)  \<comment> \<open>Icon\<close>
     (Object.Image i)  \<comment> \<open>Image\<close>
     (Object.InReplyTo i)  \<comment> \<open>InReplyTo\<close>
     (Object.Location i)  \<comment> \<open>Location\<close>
     (Object.Preview i)  \<comment> \<open>Preview\<close>
     (Object.Published i)  \<comment> \<open>Published\<close>
     (Object.Replies i)  \<comment> \<open>Replies\<close>
     (Object.StartTime i)  \<comment> \<open>StartTime\<close>
     (Object.Summary i)  \<comment> \<open>Summary\<close>
     (Object.Tag i)  \<comment> \<open>Tag\<close>
     (Object.Updated i)  \<comment> \<open>Updated\<close>
     (Object.URL i)  \<comment> \<open>URL\<close>
     (Object.To i)  \<comment> \<open>To\<close>
     (Object.Bto i)  \<comment> \<open>Bto\<close>
     (Object.CC i)  \<comment> \<open>CC\<close>
     (Object.BCC i)  \<comment> \<open>BCC\<close>
     (Object.Duration i)  \<comment> \<open>Duration\<close>
     (Object.Likes i)  \<comment> \<open>Likes\<close>
     (Object.Shares i)  \<comment> \<open>Shares\<close>
     (Object.Source i)  \<comment> \<open>Source\<close>
     (Actor.Inbox m)  \<comment> \<open>Inbox\<close>
     (Actor.Outbox m)  \<comment> \<open>Outbox\<close>
     (Actor.Following m)  \<comment> \<open>Following\<close>
     (Actor.Followers m)  \<comment> \<open>Followers\<close>
     (Actor.Liked m)  \<comment> \<open>Liked\<close>
     (Actor.PreferredUsername m)  \<comment> \<open>PreferredUsername\<close>
     (Actor.Endpoints m)  \<comment> \<open>Endpoints\<close>
     (Actor.Streams m)  \<comment> \<open>Streams\<close>
     (Actor.PublicKey m)  \<comment> \<open>PublicKey\<close>"

fun ToActor :: "Actor \<Rightarrow> Item \<Rightarrow> error + Actor" where
  "ToActor m (ActorPtr i) = Inr i"
| "ToActor m (ActorVal i) = Inr i"
| "ToActor m (ObjectPtr i) = Inr (Actor_of_Object m i)"
| "ToActor m (ObjectVal i) = Inr (Actor_of_Object m i)"
| "ToActor m it = Inl (errors_New ''unable to convert object'')"

subsection \<open>collection.go\<close>

definition CollectionOfItems :: ActivityVocabularyType where
  "CollectionOfItems = ''ItemCollection''"

definition CollectionTypes :: ActivityVocabularyTypes where
  "CollectionTypes = [CollectionOfItems, CollectionType, OrderedCollectionType,
     CollectionPageType, OrderedCollectionPageType]"

definition CollectionNew :: "ID \<Rightarrow> Collection" where
  "CollectionNew id' =
     Collection
     (id')  \<comment> \<open>ID\<close>
     (CollectionType)  \<comment> \<open>Type\<close>
     (NaturalLanguageValuesNew)  \<comment> \<open>Name\<close>
     (ItemNil)  \<comment> \<open>Attachment\<close>
     (ItemNil)  \<comment> \<open>AttributedTo\<close>
     (None)  \<comment> \<open>Audience\<close>
     (NaturalLanguageValuesNew)  \<comment> \<open>Content\<close>
     (ItemNil)  \<comment> \<open>Context\<close>
     ([])  \<comment> \<open>MediaType\<close>
     (0)  \<comment> \<open>EndTime\<close>
     (ItemNil)  \<comment> \<open>Generator\<close>
     (ItemNil)  \<comment> \<open>Icon\<close>
     (ItemNil)  \<comment> \<open>Image\<close>
     (ItemNil)  \<comment> \<open>InReplyTo\<close>
     (ItemNil)  \<comment> \<open>Location\<close>
     (ItemNil)  \<comment> \<open>Preview\<close>
     (0)  \<comment> \<open>Published\<close>
     (ItemNil)  \<comment> \<open>Replies\<close>
     (0)  \<comment> \<open>StartTime\<close>
     (NaturalLanguageValuesNew)  \<comment> \<open>Summary\<close>
     (None)  \<comment> \<open>Tag\<close>
     (0)  \<comment> \<open>Updated\<close>
     (ItemNil)  \<comment> \<open>URL\<close>
     (None)  \<comment> \<open>To\<close>
     (None)  \<comment> \<open>Bto\<close>
     (None)  \<comment> \<open>CC\<close>
     (None)  \<comment> \<open>BCC\<close>
     (0)  \<comment> \<open>Duration\<close>
     (ItemNil)  \<comment> \<open>Likes\<close>
     (ItemNil)  \<comment> \<open>Shares\<close>
     ((Source.Source None []))  \<comment> \<open>Source\<close>
     (ItemNil)  \<comment> \<open>Current\<close>
     (ItemNil)  \<comment> \<open>First\<close>
     (ItemNil)  \<comment> \<open>Last\<close>
     (0)  \<comment> \<open>TotalItems\<close>
     (None)  \<comment> \<open>Items\<close>"

definition Collection_GetID :: "Collection \<Rightarrow> ID" where "Collection_GetID c = Collection.ID c"
definition Collection_GetType :: "Collection \<Rightarrow> ActivityVocabularyType" where
  "Collection_GetType c = Collection.Type c"
definition Collection_IsLink :: "Collection \<Rightarrow> bool" where "Collection_IsLink c = False"
definition Collection_IsObject :: "Collection \<Rightarrow> bool" where "Collection_IsObject c = True"
definition Collection_IsCollection :: "Collection \<Rightarrow> bool" where
  "Collection_IsCollection c = True"
definition Collection_GetLink :: "Collection \<Rightarrow> IRI" where "Collection_GetLink c = Collection.ID c"
definition Collection_Collection :: "Collection \<Rightarrow> ItemCollection" where
  "Collection_Collection c = Collection.Items c"

text \<open>\<^verbatim>\<open>Append\<close>: \<^verbatim>\<open>append\<close> on a nil slice allocates; the error is always nil.\<close>

definition Append :: "Collection \<Rightarrow> Item \<Rightarrow> Collection \<times> error option" where
  "Append c ob =
     (Collection
      (Collection.ID c)  \<comment> \<open>ID\<close>
      (Collection.Type c)  \<comment> \<open>Type\<close>
      (Collection.Name c)  \<comment> \<open>Name\<close>
      (Collection.Attachment c)  \<comment> \<open>Attachment\<close>
      (Collection.AttributedTo c)  \<comment> \<open>AttributedTo\<close>
      (Collection.Audience c)  \<comment> \<open>Audience\<close>
      (Collection.Content c)  \<comment> \<open>Content\<close>
      (Collection.Context c)  \<comment> \<open>Context\<close>
      (Collection.MediaType c)  \<comment> \<open>MediaType\<close>
      (Collection.EndTime c)  \<comment> \<open>EndTime\<close>
      (Collection.Generator c)  \<comment> \<open>Generator\<close>
      (Collection.Icon c)  \<comment> \<open>Icon\<close>
      (Collection.Image c)  \<comment> \<open>Image\<close>
      (Collection.InReplyTo c)  \<comment> \<open>InReplyTo\<close>
      (Collection.Location c)  \<comment> \<open>Location\<close>
      (Collection.Preview c)  \<comment> \<open>Preview\<close>
      (Collection.Published c)  \<comment> \<open>Published\<close>
      (Collection.Replies c)  \<comment> \<open>Replies\<close>
      (Collection.StartTime c)  \<comment> \<open>StartTime\<close>
      (Collection.Summary c)  \<comment> \<open>Summary\<close>
      (Collection.Tag c)  \<comment> \<open>Tag\<close>
      (Collection.Updated c)  \<comment> \<open>Updated\<close>
      (Collection.URL c)  \<comment> \<open>URL\<close>
      (Collection.To c)  \<comment> \<open>To\<close>
      (Collection.Bto c)  \<comment> \<open>Bto\<close>
      (Collection.CC c)  \<comment> \<open>CC\<close>
      (Collection.BCC c)  \<comment> \<open>BCC\<close>
      (Collection.Duration c)  \<comment> \<open>Duration\<close>
      (Collection.Likes c)  \<comment> \<open>Likes\<close>
      (Collection.Shares c)  \<comment> \<open>Shares\<close>
      (Collection.Source c)  \<comment> \<open>Source\<close>
      (Collection.Current c)  \<comment> \<open>Current\<close>
      (Collection.First c)  \<comment> \<open>First\<close>
      (Collection.Last c)  \<comment> \<open>Last\<close>
      (Collection.TotalItems c)  \<comment> \<open>TotalItems\<close>
      (Some (elems (Collection.Items c) @ [ob]))  \<comment> \<open>Items\<close>,
      None)"

text \<open>\<^verbatim>\<open>Count\<close>: \<^verbatim>\<open>uint(len(c.Items))\<close> converts a length, which is never negative.\<close>

definition Count :: "Collection \<Rightarrow> uint" where
  "Count c =
     (if Collection.TotalItems c > 0 then Collection.TotalItems c
      else of_nat (len (Collection.Items c)))"

text \<open>\<^verbatim>\<open>ToCollection\<close>. The cases \<^verbatim>\<open>*CollectionPage\<close> and \<^verbatim>\<open>CollectionPage\<close> read the
  page's memory as a \<open>Collection\<close>: the fields the page starts with.\<close>

fun ToCollection :: "Item \<Rightarrow> error + Collection" where
  "ToCollection (CollectionPtr i) = Inr i"
| "ToCollection (CollectionVal i) = Inr i"
| "ToCollection (CollectionPagePtr i) = Inr (Collection_fields i)"
| "ToCollection (CollectionPageVal i) = Inr (Collection_fields i)"
| "ToCollection it = Inl (errors_New ''unable to convert to collection'')"

definition FollowingNew :: Collection where
  "FollowingNew =
     Collection
     (''following'')  \<comment> \<open>ID\<close>
     (CollectionType)  \<comment> \<open>Type\<close>
     (NaturalLanguageValuesNew)  \<comment> \<open>Name\<close>
     (ItemNil)  \<comment> \<open>Attachment\<close>
     (ItemNil)  \<comment> \<open>AttributedTo\<close>
     (None)  \<comment> \<open>Audience\<close>
     (NaturalLanguageValuesNew)  \<comment> \<open>Content\<close>
     (ItemNil)  \<comment> \<open>Context\<close>
     ([])  \<comment> \<open>MediaType\<close>
     (0)  \<comment> \<open>EndTime\<close>
     (ItemNil)  \<comment> \<open>Generator\<close>
     (ItemNil)  \<comment> \<open>Icon\<close>
     (ItemNil)  \<comment> \<open>Image\<close>
     (ItemNil)  \<comment> \<open>InReplyTo\<close>
     (ItemNil)  \<comment> \<open>Location\<close>
     (ItemNil)  \<comment> \<open>Preview\<close>
     (0)  \<comment> \<open>Published\<close>
     (ItemNil)  \<comment> \<open>Replies\<close>
     (0)  \<comment> \<open>StartTime\<close>
     (NaturalLanguageValuesNew)  \<comment> \<open>Summary\<close>
     (None)  \<comment> \<open>Tag\<close>
     (0)  \<comment> \<open>Updated\<close>
     (ItemNil)  \<comment> \<open>URL\<close>
     (None)  \<comment> \<open>To\<close>
     (None)  \<comment> \<open>Bto\<close>
     (None)  \<comment> \<open>CC\<close>
     (None)  \<comment> \<open>BCC\<close>
     (0)  \<comment> \<open>Duration\<close>
     (ItemNil)  \<comment> \<open>Likes\<close>
     (ItemNil)  \<comment> \<open>Shares\<close>
     ((Source.Source None []))  \<comment> \<open>Source\<close>
     (ItemNil)  \<comment> \<open>Current\<close>
     (ItemNil)  \<comment> \<open>First\<close>
     (ItemNil)  \<comment> \<open>Last\<close>
     (0)  \<comment> \<open>TotalItems\<close>
     (None)  \<comment> \<open>Items\<close>"

subsection \<open>Dynamic dispatch of GetLink\<close>

text \<open>
  \<^verbatim>\<open>it.GetLink()\<close> on a value of the interface. On the nil interface the call panics.
  \<open>Actor.GetLink\<close> and \<open>Collection.GetLink\<close> are in the sources (value receivers, so
  the pointer types have them too); the method of every other implementation is the
  parameter \<open>L\<close>.
\<close>

fun Item_GetLink :: "(Item \<Rightarrow> IRI) \<Rightarrow> Item \<Rightarrow> panic + IRI" where
  "Item_GetLink L ItemNil = Inl nil_dereference"
| "Item_GetLink L (ActorPtr a) = Inr (Actor_GetLink a)"
| "Item_GetLink L (ActorVal a) = Inr (Actor_GetLink a)"
| "Item_GetLink L (CollectionPtr c) = Inr (Collection_GetLink c)"
| "Item_GetLink L (CollectionVal c) = Inr (Collection_GetLink c)"
| "Item_GetLink L it = Inr (L it)"

subsection \<open>Collection.Contains\<close>

text \<open>
  \<^verbatim>\<open>IRI.Equals(with, checkScheme)\<close> is not among the sources and is the parameter
  \<open>Equals\<close>. The loop stops at the first item that matches, and panics at a nil item it
  reaches before.
\<close>

fun Contains_range :: "(IRI \<Rightarrow> IRI \<Rightarrow> bool \<Rightarrow> bool) \<Rightarrow> (Item \<Rightarrow> IRI) \<Rightarrow> IRI \<Rightarrow> Item list \<Rightarrow> panic + bool" where
  "Contains_range Equals L r [] = Inr False"
| "Contains_range Equals L r (iri # rest) =
     (case Item_GetLink L iri of
        Inl p \<Rightarrow> Inl p
      | Inr l \<Rightarrow> if Equals r l False then Inr True else Contains_range Equals L r rest)"

definition Contains :: "(IRI \<Rightarrow> IRI \<Rightarrow> bool \<Rightarrow> bool) \<Rightarrow> (Item \<Rightarrow> IRI) \<Rightarrow> Collection \<Rightarrow> IRI \<Rightarrow> panic + bool" where
  "Contains Equals L c r =
     (if len (Collection.Items c) = 0 then Inr False
      else Contains_range Equals L r (elems (Collection.Items c)))"

subsection \<open>Actor.Recipients\<close>




subsection \<open>UnmarshalJSON\<close>

text \<open>
  None of the getters that \<^verbatim>\<open>UnmarshalJSON\<close> calls is among the sources: they are the
  fields of a record of functions. \<^verbatim>\<open>ItemTyperFunc\<close> is a package variable that the
  getters may read; the variable is passed in and returned, \<^verbatim>\<open>JSONGetItemByType\<close> is a
  parameter, and the getters in force are those of the value the variable holds (\<open>J\<close>).
  \<^verbatim>\<open>uint(JSONGetInt(...))\<close> converts a signed integer and wraps.
\<close>

record json_getters =
  JSONGetID :: "bytes \<Rightarrow> ID"
  JSONGetType :: "bytes \<Rightarrow> ActivityVocabularyType"
  JSONGetNaturalLanguageField :: "bytes \<Rightarrow> string \<Rightarrow> NaturalLanguageValues"
  JSONGetItem :: "bytes \<Rightarrow> string \<Rightarrow> Item"
  JSONGetURIItem :: "bytes \<Rightarrow> string \<Rightarrow> Item"
  JSONGetString :: "bytes \<Rightarrow> string \<Rightarrow> string"
  JSONGetTime :: "bytes \<Rightarrow> string \<Rightarrow> Time"
  JSONGetDuration :: "bytes \<Rightarrow> string \<Rightarrow> Duration"
  JSONGetItems :: "bytes \<Rightarrow> string \<Rightarrow> ItemCollection"
  GetAPSource :: "bytes \<Rightarrow> Source"
  JSONGetActorEndpoints :: "bytes \<Rightarrow> string \<Rightarrow> Endpoints option"
  JSONGetStreams :: "bytes \<Rightarrow> string \<Rightarrow> ItemCollection list"
  JSONGetPublicKey :: "bytes \<Rightarrow> string \<Rightarrow> PublicKey"
  JSONGetInt :: "bytes \<Rightarrow> string \<Rightarrow> int"

definition ItemTyperFunc_or :: "'t \<Rightarrow> 't option \<Rightarrow> 't option" where
  "ItemTyperFunc_or JSONGetItemByType ItemTyperFunc =
     (if ItemTyperFunc = None then Some JSONGetItemByType else ItemTyperFunc)"

definition getters_in_force :: "('t \<Rightarrow> json_getters) \<Rightarrow> 't \<Rightarrow> 't option \<Rightarrow> json_getters" where
  "getters_in_force J JSONGetItemByType ItemTyperFunc =
     (case ItemTyperFunc_or JSONGetItemByType ItemTyperFunc of
        Some f \<Rightarrow> J f
      | None \<Rightarrow> J JSONGetItemByType)"

definition Actor_UnmarshalJSON ::
  "('t \<Rightarrow> json_getters) \<Rightarrow> 't \<Rightarrow> 't option \<Rightarrow> Actor \<Rightarrow> bytes \<Rightarrow> 't option \<times> Actor \<times> error option" where
  "Actor_UnmarshalJSON J JSONGetItemByType ItemTyperFunc a data =
     (let g = getters_in_force J JSONGetItemByType ItemTyperFunc in
      (ItemTyperFunc_or JSONGetItemByType ItemTyperFunc,
       Actor
         (JSONGetID g data)  \<comment> \<open>ID\<close>
         (JSONGetType g data)  \<comment> \<open>Type\<close>
         (JSONGetNaturalLanguageField g data ''name'')  \<comment> \<open>Name\<close>
         (JSONGetItem g data ''attachment'')  \<comment> \<open>Attachment\<close>
         (JSONGetItem g data ''attributedTo'')  \<comment> \<open>AttributedTo\<close>
         (if len (JSONGetItems g data ''audience'') > 0 then JSONGetItems g data ''audience'' else Actor.Audience a)  \<comment> \<open>Audience\<close>
         (JSONGetNaturalLanguageField g data ''content'')  \<comment> \<open>Content\<close>
         (JSONGetItem g data ''context'')  \<comment> \<open>Context\<close>
         (JSONGetString g data ''mediaType'')  \<comment> \<open>MediaType\<close>
         (JSONGetTime g data ''endTime'')  \<comment> \<open>EndTime\<close>
         (JSONGetItem g data ''generator'')  \<comment> \<open>Generator\<close>
         (JSONGetItem g data ''icon'')  \<comment> \<open>Icon\<close>
         (JSONGetItem g data ''image'')  \<comment> \<open>Image\<close>
         (if len (JSONGetItems g data ''inReplyTo'') > 0 then ItemCollectionVal (JSONGetItems g data ''inReplyTo'') else Actor.InReplyTo a)  \<comment> \<open>InReplyTo\<close>
         (JSONGetItem g data ''location'')  \<comment> \<open>Location\<close>
         (JSONGetItem g data ''preview'')  \<comment> \<open>Preview\<close>
         (JSONGetTime g data ''published'')  \<comment> \<open>Published\<close>
         (if JSONGetItem g data ''replies'' \<noteq> ItemNil then JSONGetItem g data ''replies'' else Actor.Replies a)  \<comment> \<open>Replies\<close>
         (JSONGetTime g data ''startTime'')  \<comment> \<open>StartTime\<close>
         (JSONGetNaturalLanguageField g data ''summary'')  \<comment> \<open>Summary\<close>
         (if len (JSONGetItems g data ''tag'') > 0 then JSONGetItems g data ''tag'' else Actor.Tag a)  \<comment> \<open>Tag\<close>
         (JSONGetTime g data ''updated'')  \<comment> \<open>Updated\<close>
         (JSONGetURIItem g data ''url'')  \<comment> \<open>URL\<close>
         (if len (JSONGetItems g data ''to'') > 0 then JSONGetItems g data ''to'' else Actor.To a)  \<comment> \<open>To\<close>
         (if len (JSONGetItems g data ''bto'') > 0 then JSONGetItems g data ''bto'' else Actor.Bto a)  \<comment> \<open>Bto\<close>
         (if len (JSONGetItems g data ''cc'') > 0 then JSONGetItems g data ''cc'' else Actor.CC a)  \<comment> \<open>CC\<close>
         (if len (JSONGetItems g data ''bcc'') > 0 then JSONGetItems g data ''bcc'' else Actor.BCC a)  \<comment> \<open>BCC\<close>
         (JSONGetDuration g data ''duration'')  \<comment> \<open>Duration\<close>
         (JSONGetItem g data ''likes'')  \<comment> \<open>Likes\<close>
         (JSONGetItem g data ''shares'')  \<comment> \<open>Shares\<close>
         (GetAPSource g data)  \<comment> \<open>Source\<close>
         (JSONGetItem g data ''inbox'')  \<comment> \<open>Inbox\<close>
         (JSONGetItem g data ''outbox'')  \<comment> \<open>Outbox\<close>
         (JSONGetItem g data ''following'')  \<comment> \<open>Following\<close>
         (JSONGetItem g data ''followers'')  \<comment> \<open>Followers\<close>
         (JSONGetItem g data ''liked'')  \<comment> \<open>Liked\<close>
         (JSONGetNaturalLanguageField g data ''preferredUsername'')  \<comment> \<open>PreferredUsername\<close>
         (JSONGetActorEndpoints g data ''endpoints'')  \<comment> \<open>Endpoints\<close>
         (JSONGetStreams g data ''streams'')  \<comment> \<open>Streams\<close>
         (JSONGetPublicKey g data ''publicKey'')  \<comment> \<open>PublicKey\<close>,
       None))"

definition Endpoints_UnmarshalJSON ::
  "('t \<Rightarrow> json_getters) \<Rightarrow> 't \<Rightarrow> 't option \<Rightarrow> Endpoints \<Rightarrow> bytes \<Rightarrow> Endpoints \<times> error option" where
  "Endpoints_UnmarshalJSON J JSONGetItemByType ItemTyperFunc e data =
     (let g = getters_in_force J JSONGetItemByType ItemTyperFunc in
      (Endpoints.Endpoints
         (JSONGetItem g data ''uploadMedia'')
         (JSONGetItem g data ''oauthAuthorizationEndpoint'')
         (JSONGetItem g data ''oauthTokenEndpoint'')
         (JSONGetItem g data ''provideClientKey'')
         (JSONGetItem g data ''signClientKey'')
         (JSONGetItem g data ''sharedInbox''),
       None))"

text \<open>\<^verbatim>\<open>Collection.UnmarshalJSON\<close> assigns neither \<open>Likes\<close>, \<open>Shares\<close> nor \<open>Source\<close>.\<close>

definition Collection_UnmarshalJSON ::
  "('t \<Rightarrow> json_getters) \<Rightarrow> 't \<Rightarrow> 't option \<Rightarrow> Collection \<Rightarrow> bytes \<Rightarrow> 't option \<times> Collection \<times> error option" where
  "Collection_UnmarshalJSON J JSONGetItemByType ItemTyperFunc c data =
     (let g = getters_in_force J JSONGetItemByType ItemTyperFunc in
      (ItemTyperFunc_or JSONGetItemByType ItemTyperFunc,
       Collection
         (JSONGetID g data)  \<comment> \<open>ID\<close>
         (JSONGetType g data)  \<comment> \<open>Type\<close>
         (JSONGetNaturalLanguageField g data ''name'')  \<comment> \<open>Name\<close>
         (JSONGetItem g data ''attachment'')  \<comment> \<open>Attachment\<close>
         (JSONGetItem g data ''attributedTo'')  \<comment> \<open>AttributedTo\<close>
         (if len (JSONGetItems g data ''audience'') > 0 then JSONGetItems g data ''audience'' else Collection.Audience c)  \<comment> \<open>Audience\<close>
         (JSONGetNaturalLanguageField g data ''content'')  \<comment> \<open>Content\<close>
         (JSONGetItem g data ''context'')  \<comment> \<open>Context\<close>
         (JSONGetString g data ''mediaType'')  \<comment> \<open>MediaType\<close>
         (JSONGetTime g data ''endTime'')  \<comment> \<open>EndTime\<close>
         (JSONGetItem g data ''generator'')  \<comment> \<open>Generator\<close>
         (JSONGetItem g data ''icon'')  \<comment> \<open>Icon\<close>
         (JSONGetItem g data ''image'')  \<comment> \<open>Image\<close>
         (if len (JSONGetItems g data ''inReplyTo'') > 0 then ItemCollectionVal (JSONGetItems g data ''inReplyTo'') else Collection.InReplyTo c)  \<comment> \<open>InReplyTo\<close>
         (JSONGetItem g data ''location'')  \<comment> \<open>Location\<close>
         (JSONGetItem g data ''preview'')  \<comment> \<open>Preview\<close>
         (JSONGetTime g data ''published'')  \<comment> \<open>Published\<close>
         (if JSONGetItem g data ''replies'' \<noteq> ItemNil then JSONGetItem g data ''replies'' else Collection.Replies c)  \<comment> \<open>Replies\<close>
         (JSONGetTime g data ''startTime'')  \<comment> \<open>StartTime\<close>
         (JSONGetNaturalLanguageField g data ''summary'')  \<comment> \<open>Summary\<close>
         (if len (JSONGetItems g data ''tag'') > 0 then JSONGetItems g data ''tag'' else Collection.Tag c)  \<comment> \<open>Tag\<close>
         (JSONGetTime g data ''updated'')  \<comment> \<open>Updated\<close>
         (JSONGetURIItem g data ''url'')  \<comment> \<open>URL\<close>
         (if len (JSONGetItems g data ''to'') > 0 then JSONGetItems g data ''to'' else Collection.To c)  \<comment> \<open>To\<close>
         (if len (JSONGetItems g data ''bto'') > 0 then JSONGetItems g data ''bto'' else Collection.Bto c)  \<comment> \<open>Bto\<close>
         (if len (JSONGetItems g data ''cc'') > 0 then JSONGetItems g data ''cc'' else Collection.CC c)  \<comment> \<open>CC\<close>
         (if len (JSONGetItems g data ''bcc'') > 0 then JSONGetItems g data ''bcc'' else Collection.BCC c)  \<comment> \<open>BCC\<close>
         (JSONGetDuration g data ''duration'')  \<comment> \<open>Duration\<close>
         (Collection.Likes c)  \<comment> \<open>Likes\<close>
         (Collection.Shares c)  \<comment> \<open>Shares\<close>
         (Collection.Source c)  \<comment> \<open>Source\<close>
         (JSONGetItem g data ''current'')  \<comment> \<open>Current\<close>
         (JSONGetItem g data ''first'')  \<comment> \<open>First\<close>
         (JSONGetItem g data ''last'')  \<comment> \<open>Last\<close>
         (word_of_int (JSONGetInt g data ''totalItems''))  \<comment> \<open>TotalItems\<close>
         (JSONGetItems g data ''items'')  \<comment> \<open>Items\<close>,
       None))"

subsection \<open>Collection.MarshalJSON\<close>

text \<open>
  The writers are not among the sources: they are the fields of a record of functions,
  each from the buffer and its arguments to the buffer it leaves and the flag it returns.
  \<^verbatim>\<open>int(c.TotalItems)\<close> reads the 64 bits as a signed integer.
\<close>

record json_writers =
  writeObject :: "bytes \<Rightarrow> Object \<Rightarrow> bytes \<times> bool"
  writeItemProp :: "bytes \<Rightarrow> string \<Rightarrow> Item \<Rightarrow> bytes \<times> bool"
  writeItemCollectionProp :: "bytes \<Rightarrow> string \<Rightarrow> ItemCollection \<Rightarrow> bytes \<times> bool"
  writeIntProp :: "bytes \<Rightarrow> string \<Rightarrow> int \<Rightarrow> bytes \<times> bool"

text \<open>
  Modelled from the spec: \<^verbatim>\<open>OnObject\<close> is not among the sources; encoding a Collection
  first encodes it as an Object, the fields that the Collection starts with, to which the
  function given to \<^verbatim>\<open>OnObject\<close> is applied.
\<close>

definition Object_of_Collection :: "Collection \<Rightarrow> Object" where
  "Object_of_Collection c =
     Object
     (Collection.ID c)  \<comment> \<open>ID\<close>
     (Collection.Type c)  \<comment> \<open>Type\<close>
     (Collection.Name c)  \<comment> \<open>Name\<close>
     (Collection.Attachment c)  \<comment> \<open>Attachment\<close>
     (Collection.AttributedTo c)  \<comment> \<open>AttributedTo\<close>
     (Collection.Audience c)  \<comment> \<open>Audience\<close>
     (Collection.Content c)  \<comment> \<open>Content\<close>
     (Collection.Context c)  \<comment> \<open>Context\<close>
     (Collection.MediaType c)  \<comment> \<open>MediaType\<close>
     (Collection.EndTime c)  \<comment> \<open>EndTime\<close>
     (Collection.Generator c)  \<comment> \<open>Generator\<close>
     (Collection.Icon c)  \<comment> \<open>Icon\<close>
     (Collection.Image c)  \<comment> \<open>Image\<close>
     (Collection.InReplyTo c)  \<comment> \<open>InReplyTo\<close>
     (Collection.Location c)  \<comment> \<open>Location\<close>
     (Collection.Preview c)  \<comment> \<open>Preview\<close>
     (Collection.Published c)  \<comment> \<open>Published\<close>
     (Collection.Replies c)  \<comment> \<open>Replies\<close>
     (Collection.StartTime c)  \<comment> \<open>StartTime\<close>
     (Collection.Summary c)  \<comment> \<open>Summary\<close>
     (Collection.Tag c)  \<comment> \<open>Tag\<close>
     (Collection.Updated c)  \<comment> \<open>Updated\<close>
     (Collection.URL c)  \<comment> \<open>URL\<close>
     (Collection.To c)  \<comment> \<open>To\<close>
     (Collection.Bto c)  \<comment> \<open>Bto\<close>
     (Collection.CC c)  \<comment> \<open>CC\<close>
     (Collection.BCC c)  \<comment> \<open>BCC\<close>
     (Collection.Duration c)  \<comment> \<open>Duration\<close>
     (Collection.Likes c)  \<comment> \<open>Likes\<close>
     (Collection.Shares c)  \<comment> \<open>Shares\<close>
     (Collection.Source c)  \<comment> \<open>Source\<close>"

definition writeCommaIfNotEmpty :: "bool \<Rightarrow> bytes \<Rightarrow> bytes" where
  "writeCommaIfNotEmpty notEmpty b = (if notEmpty then b @ '','' else b)"

definition MarshalJSON :: "json_writers \<Rightarrow> Collection \<Rightarrow> bytes option \<times> error option" where
  "MarshalJSON w c =
     (let b = ''{'';
          (b, notEmpty) = writeObject w b (Object_of_Collection c);
          (b, notEmpty) =
            (if Collection.Current c \<noteq> ItemNil then
               (let b = writeCommaIfNotEmpty notEmpty b;
                    (b, r) = writeItemProp w b ''current'' (Collection.Current c)
                in (b, r \<or> notEmpty))
             else (b, notEmpty));
          (b, notEmpty) =
            (if Collection.First c \<noteq> ItemNil then
               (let b = writeCommaIfNotEmpty notEmpty b;
                    (b, r) = writeItemProp w b ''first'' (Collection.First c)
                in (b, r \<or> notEmpty))
             else (b, notEmpty));
          (b, notEmpty) =
            (if Collection.Last c \<noteq> ItemNil then
               (let b = writeCommaIfNotEmpty notEmpty b;
                    (b, r) = writeItemProp w b ''last'' (Collection.Last c)
                in (b, r \<or> notEmpty))
             else (b, notEmpty));
          (b, notEmpty) =
            (if Collection.Items c \<noteq> None then
               (let b = writeCommaIfNotEmpty notEmpty b;
                    (b, r) = writeItemCollectionProp w b ''items'' (Collection.Items c)
                in (b, r \<or> notEmpty))
             else (b, notEmpty));
          b = writeCommaIfNotEmpty notEmpty b;
          (b, r) = writeIntProp w b ''totalItems'' (sint (Collection.TotalItems c));
          notEmpty = (r \<or> notEmpty)
      in if notEmpty then (Some (b @ ''}''), None) else (None, None))"

subsection \<open>Vocabulary of the properties\<close>

text \<open>The identifier of an item whose dynamic type is \<^verbatim>\<open>*Actor\<close>, \<^verbatim>\<open>Actor\<close>, \<^verbatim>\<open>*Object\<close>
  or \<^verbatim>\<open>Object\<close>, and the items whose dynamic type is a collection or a collection page.\<close>

fun actor_variant_ID :: "Item \<Rightarrow> ID option" where
  "actor_variant_ID (ActorPtr a) = Some (Actor_GetID a)"
| "actor_variant_ID (ActorVal a) = Some (Actor_GetID a)"
| "actor_variant_ID (ObjectPtr ob) = Some (Object.ID ob)"
| "actor_variant_ID (ObjectVal ob) = Some (Object.ID ob)"
| "actor_variant_ID it = None"

fun collection_variant :: "Item \<Rightarrow> bool" where
  "collection_variant (CollectionPtr c) = True"
| "collection_variant (CollectionVal c) = True"
| "collection_variant (CollectionPagePtr c) = True"
| "collection_variant (CollectionPageVal c) = True"
| "collection_variant it = False"



text \<open>
  The layers of an encoded Collection, in the words of the spec: the common Object fields
  first, then \<open>current\<close>, \<open>first\<close>, \<open>last\<close>, \<open>items\<close> and \<open>totalItems\<close>. A layer takes
  the buffer and the flag \<open>notEmpty\<close> and returns them; the layer of a nil field returns
  them as they are.
\<close>

definition layer_object :: "json_writers \<Rightarrow> Collection \<Rightarrow> bytes \<times> bool" where
  "layer_object w c = writeObject w ''{'' (Object_of_Collection c)"

definition layer_item :: "json_writers \<Rightarrow> string \<Rightarrow> Item \<Rightarrow> bytes \<times> bool \<Rightarrow> bytes \<times> bool" where
  "layer_item w name it s =
     (if it = ItemNil then s
      else (fst (writeItemProp w (writeCommaIfNotEmpty (snd s) (fst s)) name it),
            snd (writeItemProp w (writeCommaIfNotEmpty (snd s) (fst s)) name it) \<or> snd s))"

definition layer_items ::
  "json_writers \<Rightarrow> string \<Rightarrow> ItemCollection \<Rightarrow> bytes \<times> bool \<Rightarrow> bytes \<times> bool" where
  "layer_items w name col s =
     (if col = None then s
      else (fst (writeItemCollectionProp w (writeCommaIfNotEmpty (snd s) (fst s)) name col),
            snd (writeItemCollectionProp w (writeCommaIfNotEmpty (snd s) (fst s)) name col) \<or> snd s))"

definition layer_int :: "json_writers \<Rightarrow> string \<Rightarrow> int \<Rightarrow> bytes \<times> bool \<Rightarrow> bytes \<times> bool" where
  "layer_int w name d s =
     (fst (writeIntProp w (writeCommaIfNotEmpty (snd s) (fst s)) name d),
      snd (writeIntProp w (writeCommaIfNotEmpty (snd s) (fst s)) name d) \<or> snd s)"

definition specific_layers :: "json_writers \<Rightarrow> Collection \<Rightarrow> bytes \<times> bool \<Rightarrow> bytes \<times> bool" where
  "specific_layers w c s =
     layer_int w ''totalItems'' (sint (Collection.TotalItems c))
       (layer_items w ''items'' (Collection.Items c)
         (layer_item w ''last'' (Collection.Last c)
           (layer_item w ''first'' (Collection.First c)
             (layer_item w ''current'' (Collection.Current c) s))))"

definition layers :: "json_writers \<Rightarrow> Collection \<Rightarrow> bytes \<times> bool" where
  "layers w c = specific_layers w c (layer_object w c)"

text \<open>Writers that only append to the buffer, as writes to a \<^verbatim>\<open>bytes.Buffer\<close> do.\<close>

definition appends :: "json_writers \<Rightarrow> bool" where
  "appends w =
     ((\<forall>b ob. prefix b (fst (writeObject w b ob))) \<and>
      (\<forall>b n it. prefix b (fst (writeItemProp w b n it))) \<and>
      (\<forall>b n col. prefix b (fst (writeItemCollectionProp w b n col))) \<and>
      (\<forall>b n d. prefix b (fst (writeIntProp w b n d))))"

subsection \<open>Instances of the parameters\<close>

text \<open>
  The theorems hold for every scanner, getter, writer and comparison. Where a concrete one
  is needed, these stand in.

  Modelled from the spec: the scanner's \<^verbatim>\<open>GetString(buf, key)\<close> on a document whose
  string members are \<open>ms\<close>; a key that is not found is an error.
\<close>

definition scan_members :: "(string \<times> string) list \<Rightarrow> bytes \<Rightarrow> string \<Rightarrow> error + string" where
  "scan_members ms data key =
     (case map_of ms key of
        Some v \<Rightarrow> Inr v
      | None \<Rightarrow> Inl (errors_New ''Key path not found''))"

text \<open>Modelled from the spec: the strict mode of identifier equality, exact byte equality;
  the link of a bare identifier is the identifier.\<close>

definition Equals_exact :: "IRI \<Rightarrow> IRI \<Rightarrow> bool \<Rightarrow> bool" where
  "Equals_exact r with checkScheme = (r = with)"

definition IRI_GetLink :: "Item \<Rightarrow> IRI" where
  "IRI_GetLink it = (case it of IRIItem i \<Rightarrow> i | OtherItem t i \<Rightarrow> i | _ \<Rightarrow> [])"

text \<open>Writers that never write.\<close>

definition silent_writers :: json_writers where
  "silent_writers =
     \<lparr> writeObject = (\<lambda>b ob. (b, False)),
       writeItemProp = (\<lambda>b n it. (b, False)),
       writeItemCollectionProp = (\<lambda>b n col. (b, False)),
       writeIntProp = (\<lambda>b n d. (b, False)) \<rparr>"

text \<open>
  Modelled from the spec: writers that append \<^verbatim>\<open>"name":value\<close> for a value that is
  present and nothing for an empty one. The object writer knows the fields \<open>id\<close> and
  \<open>type\<close>, the item writers know bare links. \<open>zero\<close> tells whether the integer writer
  prints a zero or omits it.
\<close>

definition quoted :: "string \<Rightarrow> bytes" where
  "quoted s = ''\"'' @ s @ ''\"''"

fun decimal :: "nat \<Rightarrow> string" where
  "decimal n =
     (if n < 10 then [''0123456789'' ! n]
      else decimal (n div 10) @ [''0123456789'' ! (n mod 10)])"

fun quoted_links :: "Item list \<Rightarrow> bytes" where
  "quoted_links [] = []"
| "quoted_links [it] = quoted (IRI_GetLink it)"
| "quoted_links (it # rest) = quoted (IRI_GetLink it) @ '','' @ quoted_links rest"

definition sample_writers :: "bool \<Rightarrow> json_writers" where
  "sample_writers zero =
     \<lparr> writeObject = (\<lambda>b ob.
         (b @ (if Object.ID ob = [] then [] else quoted ''id'' @ '':'' @ quoted (Object.ID ob))
            @ (if Object.ID ob = [] \<or> Object.Type ob = [] then [] else '','')
            @ (if Object.Type ob = [] then [] else quoted ''type'' @ '':'' @ quoted (Object.Type ob)),
          Object.ID ob \<noteq> [] \<or> Object.Type ob \<noteq> [])),
       writeItemProp = (\<lambda>b n it.
         case it of
           IRIItem i \<Rightarrow> (b @ quoted n @ '':'' @ quoted i, True)
         | _ \<Rightarrow> (b, False)),
       writeItemCollectionProp = (\<lambda>b n col.
         if len col = 0 then (b, False)
         else (b @ quoted n @ '':['' @ quoted_links (elems col) @ '']'', True)),
       writeIntProp = (\<lambda>b n d.
         if d = 0 \<and> \<not> zero then (b, False)
         else (b @ quoted n @ '':'' @ (if d < 0 then ''-'' else []) @ decimal (nat \<bar>d\<bar>), True)) \<rparr>"

text \<open>
  Modelled from the spec: what the getters return on the documents of a table. A document
  has an id, a type and members that are arrays of bare links; every other extraction
  misses and returns the zero value of its type.
\<close>

type_synonym document = "ID \<times> ActivityVocabularyType \<times> (string \<times> Item list) list"

definition table_getters :: "(bytes \<times> document) list \<Rightarrow> json_getters" where
  "table_getters docs =
     \<lparr> JSONGetID = (\<lambda>d. case map_of docs d of Some (i, t, ms) \<Rightarrow> i | None \<Rightarrow> []),
       JSONGetType = (\<lambda>d. case map_of docs d of Some (i, t, ms) \<Rightarrow> t | None \<Rightarrow> []),
       JSONGetNaturalLanguageField = (\<lambda>d k. None),
       JSONGetItem = (\<lambda>d k. ItemNil),
       JSONGetURIItem = (\<lambda>d k. ItemNil),
       JSONGetString = (\<lambda>d k. []),
       JSONGetTime = (\<lambda>d k. 0),
       JSONGetDuration = (\<lambda>d k. 0),
       JSONGetItems = (\<lambda>d k. case map_of docs d of
                                Some (i, t, ms) \<Rightarrow> map_of ms k
                              | None \<Rightarrow> None),
       GetAPSource = (\<lambda>d. Source.Source None []),
       JSONGetActorEndpoints = (\<lambda>d k. None),
       JSONGetStreams = (\<lambda>d k. []),
       JSONGetPublicKey = (\<lambda>d k. PublicKey.PublicKey [] ItemNil []),
       JSONGetInt = (\<lambda>d k. 0) \<rparr>"

definition doc_person :: bytes where
  "doc_person = ''{\"type\":\"Person\",\"id\":\"https://x/a\"}''"

definition doc_person_to :: bytes where
  "doc_person_to = ''{\"type\":\"Person\",\"id\":\"https://x/a\",\"to\":[\"https://x/b\"]}''"

definition doc_addressed :: bytes where
  "doc_addressed =
     ''{\"type\":\"Person\",\"id\":\"https://x/a\",\"to\":[\"A\",\"B\"],\"cc\":[\"B\",\"C\"],\"bcc\":[\"D\"]}''"

definition doc_empty_items :: bytes where
  "doc_empty_items = ''{\"type\":\"Collection\",\"id\":\"https://x/c\",\"items\":[]}''"

definition example_docs :: "(bytes \<times> document) list" where
  "example_docs =
     [(doc_person, ''https://x/a'', ''Person'', []),
      (doc_empty_items, ''https://x/c'', ''Collection'', [(''items'', [])]),
      (doc_person_to, ''https://x/a'', ''Person'', [(''to'', [IRIItem ''https://x/b''])]),
      (doc_addressed, ''https://x/a'', ''Person'',
         [(''to'', [IRIItem ''A'', IRIItem ''B'']), (''cc'', [IRIItem ''B'', IRIItem ''C'']),
          (''bcc'', [IRIItem ''D''])])]"

definition example_getters :: "unit \<Rightarrow> json_getters" where
  "example_getters t = table_getters example_docs"

definition decode_Actor :: "Actor \<Rightarrow> bytes \<Rightarrow> Actor" where
  "decode_Actor a data = fst (snd (Actor_UnmarshalJSON example_getters () None a data))"

definition decode_Collection :: "Collection \<Rightarrow> bytes \<Rightarrow> Collection" where
  "decode_Collection c data = fst (snd (Collection_UnmarshalJSON example_getters () None c data))"

text \<open>A collection of three items whose total is not set, and one of two items that was
  decoded from a document giving the total 5.\<close>

definition three_items :: Collection where
  "three_items =
     fst (Append (fst (Append (fst (Append (CollectionNew ''https://x/c'')
       (IRIItem ''https://x/1''))) (IRIItem ''https://x/2''))) (IRIItem ''https://x/3''))"

definition two_of_five :: Collection where
  "two_of_five =
     fst (Append (fst (Append
       (fst (snd (Collection_UnmarshalJSON
          (\<lambda>t. (table_getters []) \<lparr> JSONGetInt := (\<lambda>d k. 5) \<rparr>) () None
          (CollectionNew ''https://x/c'') ''{\"totalItems\":5}'')))
       (IRIItem ''https://x/1''))) (IRIItem ''https://x/2''))"


section \<open>Properties\<close>

subsection \<open>The example documents\<close>

lemma example_lookup:
  "map_of example_docs doc_person = Some (''https://x/a'', ''Person'', [])"
  "map_of example_docs doc_empty_items = Some (''https://x/c'', ''Collection'', [(''items'', [])])"
  "map_of example_docs doc_person_to =
     Some (''https://x/a'', ''Person'', [(''to'', [IRIItem ''https://x/b''])])"
  "map_of example_docs doc_addressed =
     Some (''https://x/a'', ''Person'',
       [(''to'', [IRIItem ''A'', IRIItem ''B'']), (''cc'', [IRIItem ''B'', IRIItem ''C'']),
        (''bcc'', [IRIItem ''D''])])"
  "map_of example_docs ''not json'' = None"
  by (simp_all add: example_docs_def doc_person_def doc_empty_items_def doc_person_to_def
      doc_addressed_def)

subsection \<open>Collection.Count\<close>

text \<open>
  C3. \<open>Count\<close> returns \<open>TotalItems\<close> whenever it is nonzero and the length of \<open>Items\<close>
  otherwise (as a \<^verbatim>\<open>uint\<close>; the length itself when it fits 64 bits, as every Go slice
  length does). A collection with \<open>TotalItems = 5\<close> and two items counts 5, one with
  \<open>TotalItems = 0\<close> and three items counts 3.
\<close>

theorem Count_policy:
  "(Collection.TotalItems c \<noteq> 0 \<longrightarrow> Count c = Collection.TotalItems c) \<and>
   (Collection.TotalItems c = 0 \<longrightarrow> Count c = of_nat (len (Collection.Items c))) \<and>
   (Collection.TotalItems c = 0 \<and> len (Collection.Items c) < 2 ^ 64 \<longrightarrow>
      unat (Count c) = len (Collection.Items c)) \<and>
   (Collection.TotalItems c = 5 \<and> len (Collection.Items c) = 2 \<longrightarrow> Count c = 5) \<and>
   (Collection.TotalItems c = 0 \<and> len (Collection.Items c) = 3 \<longrightarrow> Count c = 3)"
  by (auto simp: Count_def word_greater_zero_iff unat_of_nat)

lemma Count_instances:
  "Collection.TotalItems three_items = 0" "len (Collection.Items three_items) = 3"
  "Collection.TotalItems two_of_five = 5" "len (Collection.Items two_of_five) = 2"
  by (simp_all add: three_items_def two_of_five_def Append_def CollectionNew_def len_def
      elems_def Collection_UnmarshalJSON_def getters_in_force_def ItemTyperFunc_or_def
      table_getters_def Let_def)

theorem Count_policy_witness:
  "Collection.TotalItems two_of_five = 5 \<and> len (Collection.Items two_of_five) = 2 \<and>
   Count two_of_five = 5 \<and>
   Collection.TotalItems three_items = 0 \<and> len (Collection.Items three_items) = 3 \<and>
   Count three_items = 3 \<and> unat (Count three_items) = 3"
  using Count_policy [of two_of_five] Count_policy [of three_items]
  by (simp add: Count_instances)

subsection \<open>Actor.Clean\<close>

text \<open>
  C5. After \<open>Clean\<close> the fields \<open>Bto\<close> and \<open>BCC\<close> are nil, hence empty, and every other
  field of the actor, \<open>To\<close> and \<open>CC\<close> among them, holds the value it held before.
\<close>

theorem Clean_frame:
  "Actor.Bto (Clean a) = None \<and> Actor.BCC (Clean a) = None \<and>
   len (Actor.Bto (Clean a)) = 0 \<and> len (Actor.BCC (Clean a)) = 0 \<and>
   Actor.ID (Clean a) = Actor.ID a \<and>
   Actor.Type (Clean a) = Actor.Type a \<and>
   Actor.Name (Clean a) = Actor.Name a \<and>
   Actor.Attachment (Clean a) = Actor.Attachment a \<and>
   Actor.AttributedTo (Clean a) = Actor.AttributedTo a \<and>
   Actor.Audience (Clean a) = Actor.Audience a \<and>
   Actor.Content (Clean a) = Actor.Content a \<and>
   Actor.Context (Clean a) = Actor.Context a \<and>
   Actor.MediaType (Clean a) = Actor.MediaType a \<and>
   Actor.EndTime (Clean a) = Actor.EndTime a \<and>
   Actor.Generator (Clean a) = Actor.Generator a \<and>
   Actor.Icon (Clean a) = Actor.Icon a \<and>
   Actor.Image (Clean a) = Actor.Image a \<and>
   Actor.InReplyTo (Clean a) = Actor.InReplyTo a \<and>
   Actor.Location (Clean a) = Actor.Location a \<and>
   Actor.Preview (Clean a) = Actor.Preview a \<and>
   Actor.Published (Clean a) = Actor.Published a \<and>
   Actor.Replies (Clean a) = Actor.Replies a \<and>
   Actor.StartTime (Clean a) = Actor.StartTime a \<and>
   Actor.Summary (Clean a) = Actor.Summary a \<and>
   Actor.Tag (Clean a) = Actor.Tag a \<and>
   Actor.Updated (Clean a) = Actor.Updated a \<and>
   Actor.URL (Clean a) = Actor.URL a \<and>
   Actor.To (Clean a) = Actor.To a \<and>
   Actor.CC (Clean a) = Actor.CC a \<and>
   Actor.Duration (Clean a) = Actor.Duration a \<and>
   Actor.Likes (Clean a) = Actor.Likes a \<and>
   Actor.Shares (Clean a) = Actor.Shares a \<and>
   Actor.Source (Clean a) = Actor.Source a \<and>
   Actor.Inbox (Clean a) = Actor.Inbox a \<and>
   Actor.Outbox (Clean a) = Actor.Outbox a \<and>
   Actor.Following (Clean a) = Actor.Following a \<and>
   Actor.Followers (Clean a) = Actor.Followers a \<and>
   Actor.Liked (Clean a) = Actor.Liked a \<and>
   Actor.PreferredUsername (Clean a) = Actor.PreferredUsername a \<and>
   Actor.Endpoints (Clean a) = Actor.Endpoints a \<and>
   Actor.Streams (Clean a) = Actor.Streams a \<and>
   Actor.PublicKey (Clean a) = Actor.PublicKey a"
  by (simp add: Clean_def len_def)

subsection \<open>ActorNew\<close>

text \<open>
  C9. \<open>ActorNew\<close> replaces a type that is not one of the five actor roles by the default
  \<open>ActorType\<close> and keeps a role; the actor it returns has the given identifier, empty
  natural-language containers in \<open>Name\<close>, \<open>Content\<close>, \<open>Summary\<close> and
  \<open>PreferredUsername\<close>, and ordered collections made by \<open>OrderedCollectionNew\<close> in
  \<open>Inbox\<close>, \<open>Outbox\<close> and \<open>Liked\<close>.
\<close>

theorem ActorNew_defaults:
  "(typ \<notin> {''Application'', ''Group'', ''Organization'', ''Person'', ''Service''} \<longrightarrow>
      Actor.Type (ActorNew i typ) = ActorType) \<and>
   (typ \<in> {''Application'', ''Group'', ''Organization'', ''Person'', ''Service''} \<longrightarrow>
      Actor.Type (ActorNew i typ) = typ) \<and>
   Actor.ID (ActorNew i typ) = i \<and>
   Actor.Name (ActorNew i typ) = Some [] \<and>
   Actor.Content (ActorNew i typ) = Some [] \<and>
   Actor.Summary (ActorNew i typ) = Some [] \<and>
   Actor.PreferredUsername (ActorNew i typ) = Some [] \<and>
   Actor.Inbox (ActorNew i typ) = OrderedCollectionPtr (OrderedCollectionNew ''test-inbox'') \<and>
   Actor.Outbox (ActorNew i typ) = OrderedCollectionPtr (OrderedCollectionNew ''test-outbox'') \<and>
   Actor.Liked (ActorNew i typ) = OrderedCollectionPtr (OrderedCollectionNew ''test-liked'') \<and>
   (\<forall>j. Collection.ID (OrderedCollectionNew j) = j \<and>
        Collection.Type (OrderedCollectionNew j) = OrderedCollectionType \<and>
        Collection.Name (OrderedCollectionNew j) = Some [] \<and>
        Collection.Content (OrderedCollectionNew j) = Some [] \<and>
        Collection.Items (OrderedCollectionNew j) = None \<and>
        Collection.TotalItems (OrderedCollectionNew j) = 0)"
  by (simp add: ActorNew_def Let_def ActivityVocabularyTypes_Contains_def ActorTypes_def
      ApplicationType_def GroupType_def OrganizationType_def PersonType_def ServiceType_def
      NaturalLanguageValuesNew_def OrderedCollectionNew_def)

theorem ActorNew_defaults_witness:
  "''FrobnicatorWidget'' \<notin> {''Application'', ''Group'', ''Organization'', ''Person'', ''Service''} \<and>
   Actor.Type (ActorNew ''https://x/z'' ''FrobnicatorWidget'') = ''Actor'' \<and>
   ''Person'' \<in> {''Application'', ''Group'', ''Organization'', ''Person'', ''Service''} \<and>
   Actor.Type (ActorNew ''https://x/a'' ''Person'') = ''Person''"
  using ActorNew_defaults [of "''FrobnicatorWidget''" "''https://x/z''"]
    ActorNew_defaults [of "''Person''" "''https://x/a''"]
  by (simp add: ActorType_def)

subsection \<open>ToActor and ToCollection\<close>

text \<open>
  C2. On an item whose dynamic type is an actor, or an object, \<open>ToActor\<close> succeeds and the
  actor it returns has the identifier of the item; on every other item it returns an error
  value. \<open>ToCollection\<close> returns an error value on an actor and on every item that is
  neither a collection nor a collection page, and succeeds on those. Both functions are
  total: no input makes them panic.
\<close>

theorem ToActor_ToCollection:
  "(\<forall>i. actor_variant_ID it = Some i \<longrightarrow>
        (\<exists>a'. ToActor m it = Inr a' \<and> Actor_GetID a' = i)) \<and>
   (actor_variant_ID it = None \<longrightarrow> ToActor m it = Inl (errors_New ''unable to convert object'')) \<and>
   ToActor m (ActorPtr a) = Inr a \<and> ToActor m (ActorVal a) = Inr a \<and>
   ToCollection (ActorPtr a) = Inl (errors_New ''unable to convert to collection'') \<and>
   ToCollection (ActorVal a) = Inl (errors_New ''unable to convert to collection'') \<and>
   (collection_variant it \<longrightarrow> (\<exists>c. ToCollection it = Inr c)) \<and>
   (\<not> collection_variant it \<longrightarrow>
      ToCollection it = Inl (errors_New ''unable to convert to collection''))"
  by (cases it) (simp_all add: Actor_GetID_def Actor_of_Object_def)

theorem ToActor_ToCollection_witness:
  "actor_variant_ID (ActorPtr (decode_Actor (ActorNew [] []) doc_person)) = Some ''https://x/a'' \<and>
   (\<exists>a'. ToActor (ActorNew [] []) (ActorPtr (decode_Actor (ActorNew [] []) doc_person)) = Inr a' \<and>
      Actor_GetID a' = ''https://x/a'') \<and>
   \<not> collection_variant (ActorPtr (decode_Actor (ActorNew [] []) doc_person)) \<and>
   ToCollection (ActorPtr (decode_Actor (ActorNew [] []) doc_person)) =
     Inl (errors_New ''unable to convert to collection'') \<and>
   actor_variant_ID (IRIItem ''https://x/a'') = None \<and>
   ToActor (ActorNew [] []) (IRIItem ''https://x/a'') = Inl (errors_New ''unable to convert object'') \<and>
   collection_variant (CollectionVal (CollectionNew ''https://x/c'')) \<and>
   (\<exists>c. ToCollection (CollectionVal (CollectionNew ''https://x/c'')) = Inr c) \<and>
   actor_variant_ID (ObjectVal (Object_of_Collection (CollectionNew ''https://x/o''))) =
     Some ''https://x/o'' \<and>
   (\<exists>a'. ToActor (ActorNew [] []) (ObjectVal (Object_of_Collection (CollectionNew ''https://x/o''))) =
      Inr a' \<and> Actor_GetID a' = ''https://x/o'')"
  using ToActor_ToCollection [of "ObjectVal (Object_of_Collection (CollectionNew ''https://x/o''))"
      "ActorNew [] []"] ToActor_ToCollection [of "ActorPtr (decode_Actor (ActorNew [] []) doc_person)" "ActorNew [] []"]
    ToActor_ToCollection [of "IRIItem ''https://x/a''" "ActorNew [] []"]
    ToActor_ToCollection [of "CollectionVal (CollectionNew ''https://x/c'')" "ActorNew [] []"]
  by (simp add: decode_Actor_def Actor_UnmarshalJSON_def Actor_GetID_def Let_def
      getters_in_force_def ItemTyperFunc_or_def example_getters_def table_getters_def
      example_lookup Object_of_Collection_def CollectionNew_def)

subsection \<open>PublicKey.UnmarshalJSON\<close>

text \<open>
  C6. Decoding a public key succeeds exactly when the scanner finds the three strings
  \<open>id\<close>, \<open>owner\<close> and \<open>publicKeyPem\<close>, and the record then holds them. When one of them
  is missing or not a string, the decode returns the scanner's error for the first such
  field.
\<close>

theorem PublicKey_UnmarshalJSON_required:
  "(snd (PublicKey_UnmarshalJSON G p data) = None \<longleftrightarrow>
      (\<exists>i ow pem. G data ''id'' = Inr i \<and> G data ''owner'' = Inr ow \<and>
         G data ''publicKeyPem'' = Inr pem)) \<and>
   (\<forall>i ow pem. G data ''id'' = Inr i \<and> G data ''owner'' = Inr ow \<and>
         G data ''publicKeyPem'' = Inr pem \<longrightarrow>
      PublicKey_UnmarshalJSON G p data = (PublicKey.PublicKey i (IRIItem ow) pem, None)) \<and>
   (\<forall>e. G data ''id'' = Inl e \<longrightarrow> PublicKey_UnmarshalJSON G p data = (p, Some e)) \<and>
   (\<forall>i e. G data ''id'' = Inr i \<and> G data ''owner'' = Inl e \<longrightarrow>
      snd (PublicKey_UnmarshalJSON G p data) = Some e) \<and>
   (\<forall>i ow e. G data ''id'' = Inr i \<and> G data ''owner'' = Inr ow \<and>
         G data ''publicKeyPem'' = Inl e \<longrightarrow>
      snd (PublicKey_UnmarshalJSON G p data) = Some e)"
  by (auto simp: PublicKey_UnmarshalJSON_def Let_def split: sum.splits)

theorem PublicKey_UnmarshalJSON_required_witness:
  "PublicKey_UnmarshalJSON
     (scan_members [(''id'', ''https://x/a#main-key''), (''owner'', ''https://x/a''),
        (''publicKeyPem'', ''PEM'')])
     (PublicKey.PublicKey [] ItemNil []) ''{}'' =
     (PublicKey.PublicKey ''https://x/a#main-key'' (IRIItem ''https://x/a'') ''PEM'', None) \<and>
   snd (PublicKey_UnmarshalJSON
     (scan_members [(''id'', ''https://x/a#main-key''), (''publicKeyPem'', ''PEM'')])
     (PublicKey.PublicKey [] ItemNil []) ''{}'') = Some (errors_New ''Key path not found'') \<and>
   PublicKey_UnmarshalJSON (scan_members []) (PublicKey.PublicKey [] ItemNil []) ''{}'' =
     (PublicKey.PublicKey [] ItemNil [], Some (errors_New ''Key path not found''))"
  using PublicKey_UnmarshalJSON_required
      [of "scan_members [(''id'', ''https://x/a#main-key''), (''owner'', ''https://x/a''),
        (''publicKeyPem'', ''PEM'')]" "PublicKey.PublicKey [] ItemNil []" "''{}''"]
    PublicKey_UnmarshalJSON_required
      [of "scan_members [(''id'', ''https://x/a#main-key''), (''publicKeyPem'', ''PEM'')]"
        "PublicKey.PublicKey [] ItemNil []" "''{}''"]
    PublicKey_UnmarshalJSON_required
      [of "scan_members []" "PublicKey.PublicKey [] ItemNil []" "''{}''"]
  by (simp add: scan_members_def)

subsection \<open>Collection.Contains\<close>

lemma Contains_range_no_nil:
  "ItemNil \<notin> set xs \<Longrightarrow>
   Contains_range E L r xs = Inr (\<exists>it \<in> set xs. \<exists>l. Item_GetLink L it = Inr l \<and> E r l False)"
proof (induction xs)
  case Nil
  then show ?case by simp
next
  case (Cons x xs)
  then have "x \<noteq> ItemNil" by auto
  then obtain l where l: "Item_GetLink L x = Inr l"
    by (cases x) simp_all
  with Cons show ?case by auto
qed

text \<open>
  C7 (amended). \<open>Contains\<close> returns false on a collection without items. On a collection
  none of whose items is nil it returns true exactly when the link of some item equals \<open>r\<close>
  under \<^verbatim>\<open>Equals\<close> called with \<^verbatim>\<open>false\<close>, the tolerant mode.
\<close>

theorem Contains_membership:
  "(len (Collection.Items c) = 0 \<longrightarrow> Contains E L c r = Inr False) \<and>
   (ItemNil \<notin> set (elems (Collection.Items c)) \<longrightarrow>
      Contains E L c r =
        Inr (\<exists>it \<in> set (elems (Collection.Items c)). \<exists>l. Item_GetLink L it = Inr l \<and> E r l False))"
proof -
  have "elems (Collection.Items c) = []" if "len (Collection.Items c) = 0"
    using that by (cases "Collection.Items c") (simp_all add: len_def elems_def)
  then show ?thesis
    by (auto simp: Contains_def Contains_range_no_nil)
qed

theorem Contains_membership_witness:
  "len (Collection.Items (CollectionNew ''https://x/c'')) = 0 \<and>
   Contains Equals_exact IRI_GetLink (CollectionNew ''https://x/c'') ''https://x/a'' = Inr False \<and>
   ItemNil \<notin> set (elems (Collection.Items
      (fst (Append (fst (Append (CollectionNew ''https://x/c'') (IRIItem ''https://x/b'')))
         (ActorPtr (PersonNew ''https://x/a'')))))) \<and>
   Contains Equals_exact IRI_GetLink
      (fst (Append (fst (Append (CollectionNew ''https://x/c'') (IRIItem ''https://x/b'')))
         (ActorPtr (PersonNew ''https://x/a'')))) ''https://x/a'' = Inr True \<and>
   Contains Equals_exact IRI_GetLink
      (fst (Append (fst (Append (CollectionNew ''https://x/c'') (IRIItem ''https://x/b'')))
         (ActorPtr (PersonNew ''https://x/a'')))) ''https://x/z'' = Inr False"
  using Contains_membership [of "CollectionNew ''https://x/c''" Equals_exact IRI_GetLink "''https://x/a''"]
    Contains_membership [of "fst (Append (fst (Append (CollectionNew ''https://x/c'') (IRIItem ''https://x/b'')))
         (ActorPtr (PersonNew ''https://x/a'')))" Equals_exact IRI_GetLink "''https://x/a''"]
    Contains_membership [of "fst (Append (fst (Append (CollectionNew ''https://x/c'') (IRIItem ''https://x/b'')))
         (ActorPtr (PersonNew ''https://x/a'')))" Equals_exact IRI_GetLink "''https://x/z''"]
  by (simp add: Append_def CollectionNew_def len_def elems_def Equals_exact_def IRI_GetLink_def
      PersonNew_def ActorNew_def Actor_GetLink_def Let_def)

text \<open>The claim as stated fails on a collection that holds a nil item: after
  \<^verbatim>\<open>c.Append(nil)\<close> the call \<^verbatim>\<open>c.Contains(r)\<close> panics and returns nothing.\<close>

theorem Contains_nil_item_counterexample:
  "Contains Equals_exact IRI_GetLink (fst (Append (CollectionNew ''https://x/c'') ItemNil))
     ''https://x/a'' = Inl nil_dereference"
  by (simp add: Contains_def Append_def CollectionNew_def len_def elems_def)

subsection \<open>Actor.Recipients\<close>







subsection \<open>Collection.MarshalJSON\<close>

lemma layer_item_fold:
  "(if it \<noteq> ItemNil
    then (case writeItemProp w (writeCommaIfNotEmpty ne b) n it of (b', r) \<Rightarrow> (b', r \<or> ne))
    else (b, ne)) = layer_item w n it (b, ne)"
  by (simp add: layer_item_def split_beta)

lemma layer_items_fold:
  "(if col \<noteq> None
    then (case writeItemCollectionProp w (writeCommaIfNotEmpty ne b) n col of
            (b', r) \<Rightarrow> (b', r \<or> ne))
    else (b, ne)) = layer_items w n col (b, ne)"
  by (simp add: layer_items_def split_beta)

lemma MarshalJSON_layers:
  "MarshalJSON w c =
     (if snd (layers w c) then (Some (fst (layers w c) @ ''}''), None) else (None, None))"
proof -
  have "MarshalJSON w c =
     (case layer_object w c of (b, ne) \<Rightarrow>
      case layer_item w ''current'' (Collection.Current c) (b, ne) of (b, ne) \<Rightarrow>
      case layer_item w ''first'' (Collection.First c) (b, ne) of (b, ne) \<Rightarrow>
      case layer_item w ''last'' (Collection.Last c) (b, ne) of (b, ne) \<Rightarrow>
      case layer_items w ''items'' (Collection.Items c) (b, ne) of (b, ne) \<Rightarrow>
      case writeIntProp w (writeCommaIfNotEmpty ne b) ''totalItems''
             (sint (Collection.TotalItems c)) of (b, r) \<Rightarrow>
        if r \<or> ne then (Some (b @ ''}''), None) else (None, None))"
    unfolding MarshalJSON_def layer_object_def
    by (simp only: Let_def layer_item_fold layer_items_fold)
  moreover obtain b1 n1 where s1: "layer_object w c = (b1, n1)"
    by force
  moreover obtain b2 n2 where
    s2: "layer_item w ''current'' (Collection.Current c) (b1, n1) = (b2, n2)"
    by force
  moreover obtain b3 n3 where
    s3: "layer_item w ''first'' (Collection.First c) (b2, n2) = (b3, n3)"
    by force
  moreover obtain b4 n4 where
    s4: "layer_item w ''last'' (Collection.Last c) (b3, n3) = (b4, n4)"
    by force
  moreover obtain b5 n5 where
    s5: "layer_items w ''items'' (Collection.Items c) (b4, n4) = (b5, n5)"
    by force
  moreover obtain b6 r where
    s6: "writeIntProp w (writeCommaIfNotEmpty n5 b5) ''totalItems''
           (sint (Collection.TotalItems c)) = (b6, r)"
    by force
  ultimately have "MarshalJSON w c =
      (if r \<or> n5 then (Some (b6 @ ''}''), None) else (None, None))"
    by (simp only: prod.case)
  moreover have "layers w c = (b6, r \<or> n5)"
    by (simp add: layers_def specific_layers_def layer_int_def s1 s2 s3 s4 s5 s6)
  ultimately show ?thesis
    by (simp only: fst_conv snd_conv)
qed

lemma appends_sample_writers: "appends (sample_writers zero)"
  by (simp add: appends_def sample_writers_def split: Item.splits)

lemma empty_items_fields:
  "Collection.ID (decode_Collection (CollectionNew []) doc_empty_items) = ''https://x/c''"
  "Collection.Type (decode_Collection (CollectionNew []) doc_empty_items) = ''Collection''"
  "Collection.Current (decode_Collection (CollectionNew []) doc_empty_items) = ItemNil"
  "Collection.First (decode_Collection (CollectionNew []) doc_empty_items) = ItemNil"
  "Collection.Last (decode_Collection (CollectionNew []) doc_empty_items) = ItemNil"
  "Collection.Items (decode_Collection (CollectionNew []) doc_empty_items) = Some []"
  "Collection.TotalItems (decode_Collection (CollectionNew []) doc_empty_items) = 0"
  by (simp_all add: decode_Collection_def Collection_UnmarshalJSON_def getters_in_force_def
      ItemTyperFunc_or_def example_getters_def table_getters_def example_lookup Let_def)

lemma empty_items_object:
  "layer_object (sample_writers zero) (decode_Collection (CollectionNew []) doc_empty_items) =
     (''{\"id\":\"https://x/c\",\"type\":\"Collection\"'', True)"
  by (simp add: layer_object_def Object_of_Collection_def empty_items_fields sample_writers_def
      quoted_def)

text \<open>
  C8. The encoding does not omit an empty container entirely. On a collection whose
  \<open>items\<close> slice is empty but not nil, whose \<open>current\<close>, \<open>first\<close> and \<open>last\<close> are
  nil and whose Object part wrote something, \<open>MarshalJSON\<close> writes the comma for \<open>items\<close>
  before the writer of \<open>items\<close> is asked, and the comma for \<open>totalItems\<close> likewise: with
  any writers that only append, the encoding is the Object part followed by a comma, and
  by two commas when the writer omits the empty slice, which no JSON object has.
\<close>

theorem MarshalJSON_empty_items_comma:
  assumes "appends w"
    and "Collection.Current c = ItemNil"
    and "Collection.First c = ItemNil"
    and "Collection.Last c = ItemNil"
    and "Collection.Items c = Some []"
    and "snd (layer_object w c)"
  shows "(\<exists>t. MarshalJSON w c = (Some (fst (layer_object w c) @ '','' @ t @ ''}''), None)) \<and>
         ((\<forall>b. writeItemCollectionProp w b ''items'' (Some []) = (b, False)) \<longrightarrow>
            (\<exists>t. MarshalJSON w c = (Some (fst (layer_object w c) @ '',,'' @ t @ ''}''), None)))"
proof -
  define b0 where "b0 = fst (layer_object w c)"
  define r1 where "r1 = writeItemCollectionProp w (b0 @ '','') ''items'' (Some [])"
  define r2 where
    "r2 = writeIntProp w (fst r1 @ '','') ''totalItems'' (sint (Collection.TotalItems c))"
  have s0: "layer_object w c = (b0, True)"
    using assms(6) by (simp add: b0_def prod_eq_iff)
  have s1: "layer_items w ''items'' (Some []) (b0, True) = (fst r1, True)"
    by (simp add: layer_items_def writeCommaIfNotEmpty_def r1_def)
  have s2: "layer_int w ''totalItems'' (sint (Collection.TotalItems c)) (fst r1, True) =
      (fst r2, True)"
    by (simp add: layer_int_def writeCommaIfNotEmpty_def r2_def)
  have "layers w c = (fst r2, True)"
    by (simp add: layers_def specific_layers_def layer_item_def assms(2-5) s0 s1 s2)
  then have m: "MarshalJSON w c = (Some (fst r2 @ ''}''), None)"
    by (simp add: MarshalJSON_layers)
  from assms(1) obtain t1 where t1: "fst r1 = (b0 @ '','') @ t1"
    unfolding r1_def appends_def prefix_def by blast
  from assms(1) obtain t2 where t2: "fst r2 = (fst r1 @ '','') @ t2"
    unfolding r2_def appends_def prefix_def by blast
  have "MarshalJSON w c = (Some (b0 @ '','' @ (t1 @ '','' @ t2) @ ''}''), None)"
    by (simp add: m t1 t2)
  then have first: "\<exists>t. MarshalJSON w c = (Some (fst (layer_object w c) @ '','' @ t @ ''}''), None)"
    unfolding b0_def by blast
  have second: "\<exists>t. MarshalJSON w c = (Some (fst (layer_object w c) @ '',,'' @ t @ ''}''), None)"
    if "\<forall>b. writeItemCollectionProp w b ''items'' (Some []) = (b, False)"
  proof -
    from that have "fst r1 = b0 @ '',''"
      by (simp add: r1_def)
    then have "MarshalJSON w c = (Some (b0 @ '',,'' @ t2 @ ''}''), None)"
      by (simp add: m t2)
    then show ?thesis unfolding b0_def by blast
  qed
  from first second show ?thesis by blast
qed

theorem MarshalJSON_empty_items_comma_witness:
  "appends (sample_writers False) \<and>
   Collection.Current (decode_Collection (CollectionNew []) doc_empty_items) = ItemNil \<and>
   Collection.First (decode_Collection (CollectionNew []) doc_empty_items) = ItemNil \<and>
   Collection.Last (decode_Collection (CollectionNew []) doc_empty_items) = ItemNil \<and>
   Collection.Items (decode_Collection (CollectionNew []) doc_empty_items) = Some [] \<and>
   layer_object (sample_writers False) (decode_Collection (CollectionNew []) doc_empty_items) =
     (''{\"id\":\"https://x/c\",\"type\":\"Collection\"'', True) \<and>
   (\<forall>b. writeItemCollectionProp (sample_writers False) b ''items'' (Some []) = (b, False)) \<and>
   (\<exists>t. MarshalJSON (sample_writers False)
          (decode_Collection (CollectionNew []) doc_empty_items) =
        (Some (''{\"id\":\"https://x/c\",\"type\":\"Collection\"'' @ '',,'' @ t @ ''}''), None)) \<and>
   MarshalJSON (sample_writers False) (decode_Collection (CollectionNew []) doc_empty_items) =
     (Some ''{\"id\":\"https://x/c\",\"type\":\"Collection\",,}'', None) \<and>
   MarshalJSON (sample_writers True) (decode_Collection (CollectionNew []) doc_empty_items) =
     (Some ''{\"id\":\"https://x/c\",\"type\":\"Collection\",,\"totalItems\":0}'', None)"
proof -
  have om: "\<forall>b. writeItemCollectionProp (sample_writers False) b ''items'' (Some []) = (b, False)"
    by (simp add: sample_writers_def len_def)
  have ob: "snd (layer_object (sample_writers False)
      (decode_Collection (CollectionNew []) doc_empty_items))"
    by (simp add: empty_items_object)
  have ex: "\<exists>t. MarshalJSON (sample_writers False)
          (decode_Collection (CollectionNew []) doc_empty_items) =
        (Some (''{\"id\":\"https://x/c\",\"type\":\"Collection\"'' @ '',,'' @ t @ ''}''), None)"
    using MarshalJSON_empty_items_comma [OF appends_sample_writers [of False]
        empty_items_fields(3) empty_items_fields(4) empty_items_fields(5)
        empty_items_fields(6) ob] om
    by (simp only: empty_items_object fst_conv simp_thms)
  have e: "MarshalJSON (sample_writers z) (decode_Collection (CollectionNew []) doc_empty_items) =
     (Some (''{\"id\":\"https://x/c\",\"type\":\"Collection\",,'' @
        (if z then ''\"totalItems\":0'' else []) @ ''}''), None)" for z
    by (simp add: MarshalJSON_layers layers_def specific_layers_def empty_items_object
        empty_items_fields layer_item_def)
      (simp add: layer_items_def layer_int_def sample_writers_def writeCommaIfNotEmpty_def
        quoted_def len_def)
  show ?thesis
    using ex om e [of False] e [of True] appends_sample_writers [of False]
    by (simp add: empty_items_fields empty_items_object)
qed

text \<open>
  C10. When no write of a property reports output, neither the object writer nor the
  writers of \<open>current\<close>, \<open>first\<close>, \<open>last\<close>, \<open>items\<close> and \<open>totalItems\<close>, \<open>MarshalJSON\<close>
  returns nil bytes and a nil error, not the empty object.
\<close>

theorem MarshalJSON_nothing_written:
  assumes "\<And>b. \<not> snd (writeObject w b (Object_of_Collection c))"
    and "\<And>b. \<not> snd (writeItemProp w b ''current'' (Collection.Current c))"
    and "\<And>b. \<not> snd (writeItemProp w b ''first'' (Collection.First c))"
    and "\<And>b. \<not> snd (writeItemProp w b ''last'' (Collection.Last c))"
    and "\<And>b. \<not> snd (writeItemCollectionProp w b ''items'' (Collection.Items c))"
    and "\<And>b. \<not> snd (writeIntProp w b ''totalItems'' (sint (Collection.TotalItems c)))"
  shows "MarshalJSON w c = (None, None)"
  using assms by (simp add: MarshalJSON_def Let_def split_beta)

theorem MarshalJSON_nothing_written_witness:
  "MarshalJSON silent_writers (CollectionNew ''https://x/c'') = (None, None) \<and>
   MarshalJSON silent_writers (CollectionNew ''https://x/c'') \<noteq> (Some ''{}'', None)"
  using MarshalJSON_nothing_written [of silent_writers "CollectionNew ''https://x/c''"]
  by (simp add: silent_writers_def)

subsection \<open>UnmarshalJSON\<close>

text \<open>
  C1. Decoding into a fresh receiver, the actor of \<open>ActorNew\<close> or the collection of
  \<open>CollectionNew\<close>, never aborts: for every behaviour of the getters and for all bytes,
  valid JSON or not, \<open>Actor.UnmarshalJSON\<close> and \<open>Collection.UnmarshalJSON\<close> return a nil
  error, so no missing or malformed field makes them fail and an error is returned on no
  input at all. Every field holds what its getter found, and a field whose getter missed
  (it returned the zero value of its type, or an empty list for a guarded list field) has
  the zero value of its type. \<open>Collection.UnmarshalJSON\<close> does not read \<open>likes\<close>,
  \<open>shares\<close> and \<open>source\<close>: these fields have their zero value.
\<close>

theorem UnmarshalJSON_soft_miss:
  "(let g = getters_in_force J d tf;
        a = fst (snd (Actor_UnmarshalJSON J d tf (ActorNew i typ) data));
        c = fst (snd (Collection_UnmarshalJSON J d tf (CollectionNew j) data))
    in
      snd (snd (Actor_UnmarshalJSON J d tf (ActorNew i typ) data)) = None \<and>
      snd (snd (Collection_UnmarshalJSON J d tf (CollectionNew j) data)) = None \<and>
      Actor.ID a = JSONGetID g data \<and>
      (JSONGetID g data = [] \<longrightarrow> Actor.ID a = []) \<and>
      Actor.Type a = JSONGetType g data \<and>
      (JSONGetType g data = [] \<longrightarrow> Actor.Type a = []) \<and>
      Actor.Name a = JSONGetNaturalLanguageField g data ''name'' \<and>
      (JSONGetNaturalLanguageField g data ''name'' = None \<longrightarrow> Actor.Name a = None) \<and>
      Actor.Attachment a = JSONGetItem g data ''attachment'' \<and>
      (JSONGetItem g data ''attachment'' = ItemNil \<longrightarrow> Actor.Attachment a = ItemNil) \<and>
      Actor.AttributedTo a = JSONGetItem g data ''attributedTo'' \<and>
      (JSONGetItem g data ''attributedTo'' = ItemNil \<longrightarrow> Actor.AttributedTo a = ItemNil) \<and>
      Actor.Audience a = (if len (JSONGetItems g data ''audience'') = 0 then None else JSONGetItems g data ''audience'') \<and>
      (len (JSONGetItems g data ''audience'') = 0 \<longrightarrow> Actor.Audience a = None) \<and>
      Actor.Content a = JSONGetNaturalLanguageField g data ''content'' \<and>
      (JSONGetNaturalLanguageField g data ''content'' = None \<longrightarrow> Actor.Content a = None) \<and>
      Actor.Context a = JSONGetItem g data ''context'' \<and>
      (JSONGetItem g data ''context'' = ItemNil \<longrightarrow> Actor.Context a = ItemNil) \<and>
      Actor.MediaType a = JSONGetString g data ''mediaType'' \<and>
      (JSONGetString g data ''mediaType'' = [] \<longrightarrow> Actor.MediaType a = []) \<and>
      Actor.EndTime a = JSONGetTime g data ''endTime'' \<and>
      (JSONGetTime g data ''endTime'' = 0 \<longrightarrow> Actor.EndTime a = 0) \<and>
      Actor.Generator a = JSONGetItem g data ''generator'' \<and>
      (JSONGetItem g data ''generator'' = ItemNil \<longrightarrow> Actor.Generator a = ItemNil) \<and>
      Actor.Icon a = JSONGetItem g data ''icon'' \<and>
      (JSONGetItem g data ''icon'' = ItemNil \<longrightarrow> Actor.Icon a = ItemNil) \<and>
      Actor.Image a = JSONGetItem g data ''image'' \<and>
      (JSONGetItem g data ''image'' = ItemNil \<longrightarrow> Actor.Image a = ItemNil) \<and>
      Actor.InReplyTo a = (if len (JSONGetItems g data ''inReplyTo'') = 0 then ItemNil else ItemCollectionVal (JSONGetItems g data ''inReplyTo'')) \<and>
      (len (JSONGetItems g data ''inReplyTo'') = 0 \<longrightarrow> Actor.InReplyTo a = ItemNil) \<and>
      Actor.Location a = JSONGetItem g data ''location'' \<and>
      (JSONGetItem g data ''location'' = ItemNil \<longrightarrow> Actor.Location a = ItemNil) \<and>
      Actor.Preview a = JSONGetItem g data ''preview'' \<and>
      (JSONGetItem g data ''preview'' = ItemNil \<longrightarrow> Actor.Preview a = ItemNil) \<and>
      Actor.Published a = JSONGetTime g data ''published'' \<and>
      (JSONGetTime g data ''published'' = 0 \<longrightarrow> Actor.Published a = 0) \<and>
      Actor.Replies a = JSONGetItem g data ''replies'' \<and>
      (JSONGetItem g data ''replies'' = ItemNil \<longrightarrow> Actor.Replies a = ItemNil) \<and>
      Actor.StartTime a = JSONGetTime g data ''startTime'' \<and>
      (JSONGetTime g data ''startTime'' = 0 \<longrightarrow> Actor.StartTime a = 0) \<and>
      Actor.Summary a = JSONGetNaturalLanguageField g data ''summary'' \<and>
      (JSONGetNaturalLanguageField g data ''summary'' = None \<longrightarrow> Actor.Summary a = None) \<and>
      Actor.Tag a = (if len (JSONGetItems g data ''tag'') = 0 then None else JSONGetItems g data ''tag'') \<and>
      (len (JSONGetItems g data ''tag'') = 0 \<longrightarrow> Actor.Tag a = None) \<and>
      Actor.Updated a = JSONGetTime g data ''updated'' \<and>
      (JSONGetTime g data ''updated'' = 0 \<longrightarrow> Actor.Updated a = 0) \<and>
      Actor.URL a = JSONGetURIItem g data ''url'' \<and>
      (JSONGetURIItem g data ''url'' = ItemNil \<longrightarrow> Actor.URL a = ItemNil) \<and>
      Actor.To a = (if len (JSONGetItems g data ''to'') = 0 then None else JSONGetItems g data ''to'') \<and>
      (len (JSONGetItems g data ''to'') = 0 \<longrightarrow> Actor.To a = None) \<and>
      Actor.Bto a = (if len (JSONGetItems g data ''bto'') = 0 then None else JSONGetItems g data ''bto'') \<and>
      (len (JSONGetItems g data ''bto'') = 0 \<longrightarrow> Actor.Bto a = None) \<and>
      Actor.CC a = (if len (JSONGetItems g data ''cc'') = 0 then None else JSONGetItems g data ''cc'') \<and>
      (len (JSONGetItems g data ''cc'') = 0 \<longrightarrow> Actor.CC a = None) \<and>
      Actor.BCC a = (if len (JSONGetItems g data ''bcc'') = 0 then None else JSONGetItems g data ''bcc'') \<and>
      (len (JSONGetItems g data ''bcc'') = 0 \<longrightarrow> Actor.BCC a = None) \<and>
      Actor.Duration a = JSONGetDuration g data ''duration'' \<and>
      (JSONGetDuration g data ''duration'' = 0 \<longrightarrow> Actor.Duration a = 0) \<and>
      Actor.Likes a = JSONGetItem g data ''likes'' \<and>
      (JSONGetItem g data ''likes'' = ItemNil \<longrightarrow> Actor.Likes a = ItemNil) \<and>
      Actor.Shares a = JSONGetItem g data ''shares'' \<and>
      (JSONGetItem g data ''shares'' = ItemNil \<longrightarrow> Actor.Shares a = ItemNil) \<and>
      Actor.Source a = GetAPSource g data \<and>
      (GetAPSource g data = Source.Source None [] \<longrightarrow> Actor.Source a = Source.Source None []) \<and>
      Actor.Inbox a = JSONGetItem g data ''inbox'' \<and>
      (JSONGetItem g data ''inbox'' = ItemNil \<longrightarrow> Actor.Inbox a = ItemNil) \<and>
      Actor.Outbox a = JSONGetItem g data ''outbox'' \<and>
      (JSONGetItem g data ''outbox'' = ItemNil \<longrightarrow> Actor.Outbox a = ItemNil) \<and>
      Actor.Following a = JSONGetItem g data ''following'' \<and>
      (JSONGetItem g data ''following'' = ItemNil \<longrightarrow> Actor.Following a = ItemNil) \<and>
      Actor.Followers a = JSONGetItem g data ''followers'' \<and>
      (JSONGetItem g data ''followers'' = ItemNil \<longrightarrow> Actor.Followers a = ItemNil) \<and>
      Actor.Liked a = JSONGetItem g data ''liked'' \<and>
      (JSONGetItem g data ''liked'' = ItemNil \<longrightarrow> Actor.Liked a = ItemNil) \<and>
      Actor.PreferredUsername a = JSONGetNaturalLanguageField g data ''preferredUsername'' \<and>
      (JSONGetNaturalLanguageField g data ''preferredUsername'' = None \<longrightarrow> Actor.PreferredUsername a = None) \<and>
      Actor.Endpoints a = JSONGetActorEndpoints g data ''endpoints'' \<and>
      (JSONGetActorEndpoints g data ''endpoints'' = None \<longrightarrow> Actor.Endpoints a = None) \<and>
      Actor.Streams a = JSONGetStreams g data ''streams'' \<and>
      (JSONGetStreams g data ''streams'' = [] \<longrightarrow> Actor.Streams a = []) \<and>
      Actor.PublicKey a = JSONGetPublicKey g data ''publicKey'' \<and>
      (JSONGetPublicKey g data ''publicKey'' = PublicKey.PublicKey [] ItemNil [] \<longrightarrow> Actor.PublicKey a = PublicKey.PublicKey [] ItemNil []) \<and>
      Collection.ID c = JSONGetID g data \<and>
      (JSONGetID g data = [] \<longrightarrow> Collection.ID c = []) \<and>
      Collection.Type c = JSONGetType g data \<and>
      (JSONGetType g data = [] \<longrightarrow> Collection.Type c = []) \<and>
      Collection.Name c = JSONGetNaturalLanguageField g data ''name'' \<and>
      (JSONGetNaturalLanguageField g data ''name'' = None \<longrightarrow> Collection.Name c = None) \<and>
      Collection.Attachment c = JSONGetItem g data ''attachment'' \<and>
      (JSONGetItem g data ''attachment'' = ItemNil \<longrightarrow> Collection.Attachment c = ItemNil) \<and>
      Collection.AttributedTo c = JSONGetItem g data ''attributedTo'' \<and>
      (JSONGetItem g data ''attributedTo'' = ItemNil \<longrightarrow> Collection.AttributedTo c = ItemNil) \<and>
      Collection.Audience c = (if len (JSONGetItems g data ''audience'') = 0 then None else JSONGetItems g data ''audience'') \<and>
      (len (JSONGetItems g data ''audience'') = 0 \<longrightarrow> Collection.Audience c = None) \<and>
      Collection.Content c = JSONGetNaturalLanguageField g data ''content'' \<and>
      (JSONGetNaturalLanguageField g data ''content'' = None \<longrightarrow> Collection.Content c = None) \<and>
      Collection.Context c = JSONGetItem g data ''context'' \<and>
      (JSONGetItem g data ''context'' = ItemNil \<longrightarrow> Collection.Context c = ItemNil) \<and>
      Collection.MediaType c = JSONGetString g data ''mediaType'' \<and>
      (JSONGetString g data ''mediaType'' = [] \<longrightarrow> Collection.MediaType c = []) \<and>
      Collection.EndTime c = JSONGetTime g data ''endTime'' \<and>
      (JSONGetTime g data ''endTime'' = 0 \<longrightarrow> Collection.EndTime c = 0) \<and>
      Collection.Generator c = JSONGetItem g data ''generator'' \<and>
      (JSONGetItem g data ''generator'' = ItemNil \<longrightarrow> Collection.Generator c = ItemNil) \<and>
      Collection.Icon c = JSONGetItem g data ''icon'' \<and>
      (JSONGetItem g data ''icon'' = ItemNil \<longrightarrow> Collection.Icon c = ItemNil) \<and>
      Collection.Image c = JSONGetItem g data ''image'' \<and>
      (JSONGetItem g data ''image'' = ItemNil \<longrightarrow> Collection.Image c = ItemNil) \<and>
      Collection.InReplyTo c = (if len (JSONGetItems g data ''inReplyTo'') = 0 then ItemNil else ItemCollectionVal (JSONGetItems g data ''inReplyTo'')) \<and>
      (len (JSONGetItems g data ''inReplyTo'') = 0 \<longrightarrow> Collection.InReplyTo c = ItemNil) \<and>
      Collection.Location c = JSONGetItem g data ''location'' \<and>
      (JSONGetItem g data ''location'' = ItemNil \<longrightarrow> Collection.Location c = ItemNil) \<and>
      Collection.Preview c = JSONGetItem g data ''preview'' \<and>
      (JSONGetItem g data ''preview'' = ItemNil \<longrightarrow> Collection.Preview c = ItemNil) \<and>
      Collection.Published c = JSONGetTime g data ''published'' \<and>
      (JSONGetTime g data ''published'' = 0 \<longrightarrow> Collection.Published c = 0) \<and>
      Collection.Replies c = JSONGetItem g data ''replies'' \<and>
      (JSONGetItem g data ''replies'' = ItemNil \<longrightarrow> Collection.Replies c = ItemNil) \<and>
      Collection.StartTime c = JSONGetTime g data ''startTime'' \<and>
      (JSONGetTime g data ''startTime'' = 0 \<longrightarrow> Collection.StartTime c = 0) \<and>
      Collection.Summary c = JSONGetNaturalLanguageField g data ''summary'' \<and>
      (JSONGetNaturalLanguageField g data ''summary'' = None \<longrightarrow> Collection.Summary c = None) \<and>
      Collection.Tag c = (if len (JSONGetItems g data ''tag'') = 0 then None else JSONGetItems g data ''tag'') \<and>
      (len (JSONGetItems g data ''tag'') = 0 \<longrightarrow> Collection.Tag c = None) \<and>
      Collection.Updated c = JSONGetTime g data ''updated'' \<and>
      (JSONGetTime g data ''updated'' = 0 \<longrightarrow> Collection.Updated c = 0) \<and>
      Collection.URL c = JSONGetURIItem g data ''url'' \<and>
      (JSONGetURIItem g data ''url'' = ItemNil \<longrightarrow> Collection.URL c = ItemNil) \<and>
      Collection.To c = (if len (JSONGetItems g data ''to'') = 0 then None else JSONGetItems g data ''to'') \<and>
      (len (JSONGetItems g data ''to'') = 0 \<longrightarrow> Collection.To c = None) \<and>
      Collection.Bto c = (if len (JSONGetItems g data ''bto'') = 0 then None else JSONGetItems g data ''bto'') \<and>
      (len (JSONGetItems g data ''bto'') = 0 \<longrightarrow> Collection.Bto c = None) \<and>
      Collection.CC c = (if len (JSONGetItems g data ''cc'') = 0 then None else JSONGetItems g data ''cc'') \<and>
      (len (JSONGetItems g data ''cc'') = 0 \<longrightarrow> Collection.CC c = None) \<and>
      Collection.BCC c = (if len (JSONGetItems g data ''bcc'') = 0 then None else JSONGetItems g data ''bcc'') \<and>
      (len (JSONGetItems g data ''bcc'') = 0 \<longrightarrow> Collection.BCC c = None) \<and>
      Collection.Duration c = JSONGetDuration g data ''duration'' \<and>
      (JSONGetDuration g data ''duration'' = 0 \<longrightarrow> Collection.Duration c = 0) \<and>
      Collection.Likes c = ItemNil \<and>
      Collection.Shares c = ItemNil \<and>
      Collection.Source c = Source.Source None [] \<and>
      Collection.Current c = JSONGetItem g data ''current'' \<and>
      (JSONGetItem g data ''current'' = ItemNil \<longrightarrow> Collection.Current c = ItemNil) \<and>
      Collection.First c = JSONGetItem g data ''first'' \<and>
      (JSONGetItem g data ''first'' = ItemNil \<longrightarrow> Collection.First c = ItemNil) \<and>
      Collection.Last c = JSONGetItem g data ''last'' \<and>
      (JSONGetItem g data ''last'' = ItemNil \<longrightarrow> Collection.Last c = ItemNil) \<and>
      Collection.TotalItems c = word_of_int (JSONGetInt g data ''totalItems'') \<and>
      (JSONGetInt g data ''totalItems'' = 0 \<longrightarrow> Collection.TotalItems c = 0) \<and>
      Collection.Items c = JSONGetItems g data ''items'' \<and>
      (JSONGetItems g data ''items'' = None \<longrightarrow> Collection.Items c = None))"
  by (simp add: Actor_UnmarshalJSON_def Collection_UnmarshalJSON_def ActorNew_def
      CollectionNew_def Let_def)

theorem UnmarshalJSON_soft_miss_witness:
  "snd (snd (Actor_UnmarshalJSON example_getters () None (ActorNew [] []) doc_person_to)) = None \<and>
   Actor.ID (decode_Actor (ActorNew [] []) doc_person_to) = ''https://x/a'' \<and>
   Actor.Type (decode_Actor (ActorNew [] []) doc_person_to) = ''Person'' \<and>
   Actor.To (decode_Actor (ActorNew [] []) doc_person_to) = Some [IRIItem ''https://x/b''] \<and>
   len (JSONGetItems (getters_in_force example_getters () None) doc_person_to ''cc'') = 0 \<and>
   Actor.CC (decode_Actor (ActorNew [] []) doc_person_to) = None \<and>
   JSONGetItem (getters_in_force example_getters () None) doc_person_to ''inbox'' = ItemNil \<and>
   Actor.Inbox (decode_Actor (ActorNew [] []) doc_person_to) = ItemNil \<and>
   JSONGetNaturalLanguageField (getters_in_force example_getters () None) doc_person_to ''name'' = None \<and>
   Actor.Name (decode_Actor (ActorNew [] []) doc_person_to) = None \<and>
   snd (snd (Actor_UnmarshalJSON example_getters () None (ActorNew [] []) ''not json'')) = None \<and>
   snd (snd (Collection_UnmarshalJSON example_getters () None (CollectionNew []) ''not json'')) = None \<and>
   JSONGetItems (getters_in_force example_getters () None) ''not json'' ''items'' = None \<and>
   Collection.Items (decode_Collection (CollectionNew []) ''not json'') = None \<and>
   JSONGetInt (getters_in_force example_getters () None) ''not json'' ''totalItems'' = 0 \<and>
   Collection.TotalItems (decode_Collection (CollectionNew []) ''not json'') = 0"
  using UnmarshalJSON_soft_miss [of example_getters "()" None "[]" "[]" doc_person_to "[]"]
    UnmarshalJSON_soft_miss [of example_getters "()" None "[]" "[]" "''not json''" "[]"]
  by (simp add: Let_def getters_in_force_def ItemTyperFunc_or_def example_getters_def
      decode_Actor_def decode_Collection_def table_getters_def example_lookup len_def)

end
